theory Spec2Isabelle
  imports Complex_Main
begin

section \<open>Python values\<close>

text \<open>
  The registry of \<^verbatim>\<open>core/ewelink/__init__.py\<close> works on JSON-like
  dictionaries. A value is one of the constructors below; a dictionary is an
  association list in insertion order whose keys are strings (JSON object
  keys). Floats are idealised as reals: rounding, infinities and NaN are not
  represented.
\<close>

datatype pyval =
    PNone
  | PBool bool
  | PInt int
  | PFloat real
  | PStr string
  | PList "pyval list"
  | PDict "(string \<times> pyval) list"

type_synonym dict = "(string \<times> pyval) list"

datatype py_error =
    KeyError
  | TypeError
  | ValueError
  | IndexError
  | StopIteration
  | IllTyped \<comment> \<open>not a Python exception: a device id that is not a \<^verbatim>\<open>str\<close>,
      which the annotations \<^verbatim>\<open>did: str\<close> and \<^verbatim>\<open>Dict[str, dict]\<close> exclude,
      or an RF channel that is not a string\<close>

subsection \<open>Dictionaries\<close>

text \<open>\<^verbatim>\<open>d.get(k)\<close>: the value stored under \<open>k\<close>, if any.\<close>

definition dict_get :: "('k \<times> 'v) list \<Rightarrow> 'k \<Rightarrow> 'v option" where
  "dict_get d k = map_of d k"

text \<open>\<^verbatim>\<open>d[k] = v\<close>: an existing key keeps its position, a new key goes last.\<close>

fun dict_set :: "('k \<times> 'v) list \<Rightarrow> 'k \<Rightarrow> 'v \<Rightarrow> ('k \<times> 'v) list" where
  "dict_set [] k v = [(k, v)]"
| "dict_set ((k', v') # d) k v =
     (if k' = k then (k', v) # d else (k', v') # dict_set d k v)"

text \<open>\<^verbatim>\<open>d.update(other)\<close> for a dictionary \<open>other\<close>: the override wins.\<close>

fun dict_update :: "('k \<times> 'v) list \<Rightarrow> ('k \<times> 'v) list \<Rightarrow> ('k \<times> 'v) list" where
  "dict_update d [] = d"
| "dict_update d ((k, v) # other) = dict_update (dict_set d k v) other"

subsection \<open>Truth value, identity and equality\<close>

text \<open>\<^verbatim>\<open>bool(v)\<close>, as used by \<^verbatim>\<open>not v\<close>, \<^verbatim>\<open>and\<close>, \<^verbatim>\<open>or\<close> and \<^verbatim>\<open>if v\<close>.\<close>

fun truthy :: "pyval \<Rightarrow> bool" where
  "truthy PNone = False"
| "truthy (PBool b) = b"
| "truthy (PInt i) = (i \<noteq> 0)"
| "truthy (PFloat r) = (r \<noteq> 0)"
| "truthy (PStr s) = (s \<noteq> [])"
| "truthy (PList xs) = (xs \<noteq> [])"
| "truthy (PDict d) = (d \<noteq> [])"

text \<open>The numeric tower: \<^verbatim>\<open>bool\<close> is a subclass of \<^verbatim>\<open>int\<close>, so \<^verbatim>\<open>True == 1 == 1.0\<close>.\<close>

fun py_num :: "pyval \<Rightarrow> real option" where
  "py_num (PBool b) = Some (if b then 1 else 0)"
| "py_num (PInt i) = Some (of_int i)"
| "py_num (PFloat r) = Some r"
| "py_num _ = None"

text \<open>
  \<^verbatim>\<open>a == b\<close>: numbers compare by value, strings and lists structurally,
  dictionaries key by key whatever the insertion order, and values of different
  kinds are unequal.
\<close>

function (sequential) py_eq :: "pyval \<Rightarrow> pyval \<Rightarrow> bool" where
  "py_eq PNone PNone = True"
| "py_eq (PStr s) (PStr t) = (s = t)"
| "py_eq (PList xs) (PList ys) = list_all2 py_eq xs ys"
| "py_eq (PDict xs) (PDict ys) =
     (list_all (\<lambda>k. k \<in> set (map fst xs)) (map fst ys) \<and>
      list_all (\<lambda>k. case map_of xs k of None \<Rightarrow> False
                     | Some v \<Rightarrow> (case map_of ys k of None \<Rightarrow> False | Some w \<Rightarrow> py_eq v w))
               (map fst xs))"
| "py_eq a b = (case py_num a of None \<Rightarrow> False
                | Some x \<Rightarrow> (case py_num b of None \<Rightarrow> False | Some y \<Rightarrow> x = y))"
  by pat_completeness auto
termination
proof (relation "measure (\<lambda>(a, b). size a)", goal_cases)
  case 1
  show ?case by simp
next
  case (2 xs ys x y)
  then show ?case by (simp add: size_list_estimation' less_Suc_eq_le)
next
  case (3 xs ys k v w)
  from 3 have "(k, v) \<in> set xs"
    by (simp add: map_of_SomeD)
  then have "size v \<le> size_list (size_prod (\<lambda>x. 0) size) xs"
    by (rule size_list_estimation') simp
  then show ?case by simp
qed

subsection \<open>Membership and subscripting with a string\<close>

fun is_prefix :: "'a list \<Rightarrow> 'a list \<Rightarrow> bool" where
  "is_prefix [] ys = True"
| "is_prefix (x # xs) [] = False"
| "is_prefix (x # xs) (y # ys) = (x = y \<and> is_prefix xs ys)"

fun str_contains :: "string \<Rightarrow> string \<Rightarrow> bool" where
  "str_contains needle [] = (needle = [])"
| "str_contains needle (c # cs) = (is_prefix needle (c # cs) \<or> str_contains needle cs)"

text \<open>
  \<^verbatim>\<open>key in v\<close> for a string \<open>key\<close>: key membership in a dictionary,
  element membership in a list, substring test in a string, and a
  \<^verbatim>\<open>TypeError\<close> for a value that is not a container.
\<close>

fun py_in :: "string \<Rightarrow> pyval \<Rightarrow> py_error + bool" where
  "py_in key (PDict d) = Inr (key \<in> set (map fst d))"
| "py_in key (PList xs) = Inr (list_ex (py_eq (PStr key)) xs)"
| "py_in key (PStr s) = Inr (str_contains key s)"
| "py_in key _ = Inl TypeError"

text \<open>
  \<^verbatim>\<open>v[key]\<close> for a string \<open>key\<close>: a dictionary answers or raises
  \<^verbatim>\<open>KeyError\<close>; lists and strings want integer indices and the other values
  are not subscriptable, which is a \<^verbatim>\<open>TypeError\<close>.
\<close>

fun py_getitem :: "pyval \<Rightarrow> string \<Rightarrow> py_error + pyval" where
  "py_getitem (PDict d) key = (case dict_get d key of None \<Rightarrow> Inl KeyError | Some v \<Rightarrow> Inr v)"
| "py_getitem _ key = Inl TypeError"

section \<open>The registry and what it emits\<close>

text \<open>
  \<^verbatim>\<open>self.devices: Dict[str, dict]\<close> maps a device id to the device record.
  Records are held by value: the model assumes that no record object is stored
  under two ids, so a mutation of \<^verbatim>\<open>device\<close> is an update of the entry it
  was read from.
\<close>

type_synonym registry = "(string \<times> dict) list"

text \<open>
  The calls the registry makes on its collaborators, in program order:
  \<^item> \<open>Dispatch signal args\<close> is \<^verbatim>\<open>self.dispatcher_send(signal, *args)\<close>;
  \<^item> \<open>LocalSend device params seq timeout\<close> is \<^verbatim>\<open>self.local.send(...)\<close>;
  \<^item> \<open>CloudSend device params seq timeout\<close> is \<^verbatim>\<open>self.cloud.send(...)\<close>,
    with \<open>None\<close> for an argument left at its default;
  \<^item> \<open>CheckOffline device\<close> is \<^verbatim>\<open>asyncio.create_task(self.local.check_offline(device))\<close>;
  \<^item> \<open>CreateTask\<close> is \<^verbatim>\<open>asyncio.create_task(self.pow_helper())\<close>;
  \<^item> \<open>Sleep n\<close> is \<^verbatim>\<open>await asyncio.sleep(n)\<close>.
  An entity \<^verbatim>\<open>cls(self, device)\<close> is the pair of its class and the record;
  what its constructor does besides is modelled where it is called. The values
  an RF bridge publishes for its channels are the child entities
  \<^verbatim>\<open>XRemoteSensorOff(child, sensor)\<close>, \<^verbatim>\<open>XRemoteButton(ewelink, device, child)\<close>
  and \<^verbatim>\<open>XRemoteSensor(ewelink, device, child)\<close>, and the plain dictionary
  \<open>Raw child\<close> of a channel that was not learned.
\<close>

datatype child =
    Raw dict
  | SensorOff dict child
  | Button dict dict
  | Sensor dict dict

datatype 'c arg =
    Val pyval
  | Entities "('c \<times> dict) list"
  | Childs "child list"

datatype 'c event =
    Dispatch string "'c arg list"
  | LocalSend dict pyval string int
  | CloudSend dict "pyval option" "string option" "int option"
  | CheckOffline dict
  | CreateTask
  | Sleep nat

text \<open>
  A handler returns the registry it leaves, the events it emitted and the
  exception that ended it, if one did.
\<close>

type_synonym 'c result = "registry \<times> 'c event list \<times> py_error option"

text \<open>\<^verbatim>\<open>msg["deviceid"]\<close>, annotated \<^verbatim>\<open>str\<close>.\<close>

definition msg_deviceid :: "dict \<Rightarrow> py_error + string" where
  "msg_deviceid msg =
     (case dict_get msg ''deviceid'' of
        None \<Rightarrow> Inl KeyError
      | Some (PStr did) \<Rightarrow> Inr did
      | Some _ \<Rightarrow> Inl IllTyped)"

text \<open>\<^verbatim>\<open>if not device\<close> fails for a record that is present and not empty.\<close>

definition known_device :: "dict option \<Rightarrow> dict option" where
  "known_device device =
     (case device of None \<Rightarrow> None | Some d \<Rightarrow> if d = [] then None else Some d)"

text \<open>Whether an event is a publication on the given signal.\<close>

fun is_dispatch :: "string \<Rightarrow> 'c event \<Rightarrow> bool" where
  "is_dispatch signal (Dispatch s args) = (s = signal)"
| "is_dispatch signal _ = False"

section \<open>Cloud update reconciliation\<close>

text \<open>
  \<^verbatim>\<open>XRegistry.cloud_update\<close>. An unknown device is logged and dropped.
  With \<^verbatim>\<open>online\<close> in the params, an equal stored value ends the call and a
  different one is stored; without it, a stored \<^verbatim>\<open>False\<close> becomes
  \<^verbatim>\<open>True\<close>. \<^verbatim>\<open>device["online"]\<close> is a subscript, so a record without
  the key raises \<^verbatim>\<open>KeyError\<close>.
\<close>

definition cloud_update :: "registry \<Rightarrow> dict \<Rightarrow> 'c result" where
  "cloud_update devices msg =
     (case msg_deviceid msg of
        Inl e \<Rightarrow> (devices, [], Some e)
      | Inr did \<Rightarrow>
          (case known_device (dict_get devices did) of
             None \<Rightarrow> (devices, [], None)
           | Some device \<Rightarrow>
               (case dict_get msg ''params'' of
                  None \<Rightarrow> (devices, [], Some KeyError)
                | Some params \<Rightarrow>
                    (case py_in ''online'' params of
                       Inl e \<Rightarrow> (devices, [], Some e)
                     | Inr True \<Rightarrow>
                         (case dict_get device ''online'' of
                            None \<Rightarrow> (devices, [], Some KeyError)
                          | Some stored \<Rightarrow>
                              (case py_getitem params ''online'' of
                                 Inl e \<Rightarrow> (devices, [], Some e)
                               | Inr new \<Rightarrow>
                                   if py_eq stored new then (devices, [], None)
                                   else (dict_set devices did (dict_set device ''online'' new),
                                         [Dispatch did [Val params]], None)))
                     | Inr False \<Rightarrow>
                         (case dict_get device ''online'' of
                            None \<Rightarrow> (devices, [], Some KeyError)
                          | Some stored \<Rightarrow>
                              if stored = PBool False
                              then (dict_set devices did (dict_set device ''online'' (PBool True)),
                                    [Dispatch did [Val params]], None)
                              else (devices, [Dispatch did [Val params]], None))))))"

section \<open>Bulk registration\<close>

text \<open>\<^verbatim>\<open>self.config["devices"][deviceid]\<close>; \<^verbatim>\<open>config\<close> is \<^verbatim>\<open>None\<close> until it is loaded.\<close>

definition config_override :: "pyval \<Rightarrow> string \<Rightarrow> py_error + pyval" where
  "config_override config deviceid =
     (case py_getitem config ''devices'' of
        Inl e \<Rightarrow> Inl e
      | Inr ds \<Rightarrow> py_getitem ds deviceid)"

text \<open>
  \<^verbatim>\<open>device.update(other)\<close>. A dictionary is merged, an empty sequence changes
  nothing, a string with characters or a value that cannot be iterated raises.
  A list of key and value pairs, which Python would merge as well, is not how
  the configuration stores an override and is treated as malformed.
\<close>

fun py_update :: "dict \<Rightarrow> pyval \<Rightarrow> py_error + dict" where
  "py_update d (PDict other) = Inr (dict_update d other)"
| "py_update d (PList []) = Inr d"
| "py_update d (PList (x # xs)) = Inl ValueError"
| "py_update d (PStr []) = Inr d"
| "py_update d (PStr (c # cs)) = Inl ValueError"
| "py_update d _ = Inl TypeError"

text \<open>The \<^verbatim>\<open>try\<close> block of \<^verbatim>\<open>setup_devices\<close>: any exception leaves the record as it was.\<close>

definition apply_override :: "pyval \<Rightarrow> string \<Rightarrow> dict \<Rightarrow> dict" where
  "apply_override config deviceid device =
     (case config_override config deviceid of
        Inl _ \<Rightarrow> device
      | Inr other \<Rightarrow> (case py_update device other of Inl _ \<Rightarrow> device | Inr d \<Rightarrow> d))"

text \<open>
  The f-string \<^verbatim>\<open>{uiid:04}\<close> of the debug line is evaluated whatever the log
  level. Numbers accept the format; \<^verbatim>\<open>None\<close>, lists and dictionaries raise
  \<^verbatim>\<open>TypeError\<close>. A string depends on the interpreter: before Python 3.10 the
  zero flag raises \<^verbatim>\<open>ValueError\<close> for it, from 3.10 on it is padded. The
  flag \<open>pads_strings\<close> says which interpreter runs the code.
\<close>

fun format_04 :: "bool \<Rightarrow> pyval \<Rightarrow> py_error option" where
  "format_04 pads_strings (PBool b) = None"
| "format_04 pads_strings (PInt i) = None"
| "format_04 pads_strings (PFloat r) = None"
| "format_04 pads_strings (PStr s) = (if pads_strings then None else Some ValueError)"
| "format_04 pads_strings _ = Some TypeError"

text \<open>
  The list comprehension \<^verbatim>\<open>[cls(self, device) for cls in spec]\<close>. A
  constructor runs code of its own: \<open>entity_init cls device\<close> is what it
  publishes and the exception it raises, if any. The constructors of the entity
  classes are outside this module, so \<open>entity_init\<close> is a parameter; the one of
  the RF bridge, \<^verbatim>\<open>XRemote\<close>, is modelled below as \<open>xremote_init\<close>.
  Constructors are taken not to change the record or the registry.
\<close>

fun init_entities ::
  "('c \<Rightarrow> dict \<Rightarrow> 'c event list \<times> py_error option) \<Rightarrow> 'c list \<Rightarrow> dict \<Rightarrow>
   'c event list \<times> py_error option" where
  "init_entities entity_init [] device = ([], None)"
| "init_entities entity_init (cls # rest) device =
     (case entity_init cls device of
        (ev, Some e) \<Rightarrow> (ev, Some e)
      | (ev, None) \<Rightarrow>
          (case init_entities entity_init rest device of
             (ev', x) \<Rightarrow> (ev @ ev', x)))"

text \<open>
  One turn of the loop of \<^verbatim>\<open>XRegistry.setup_devices\<close>. The capability
  factory \<^verbatim>\<open>get_spec\<close> lives outside this module and is a parameter.
\<close>

definition setup_device ::
  "(dict \<Rightarrow> 'c list) \<Rightarrow> ('c \<Rightarrow> dict \<Rightarrow> 'c event list \<times> py_error option) \<Rightarrow> bool \<Rightarrow>
   pyval \<Rightarrow> registry \<Rightarrow> dict \<Rightarrow> 'c result" where
  "setup_device get_spec entity_init pads_strings config devices device0 =
     (case msg_deviceid device0 of
        Inl e \<Rightarrow> (devices, [], Some e)
      | Inr deviceid \<Rightarrow>
          (let device = apply_override config deviceid device0 in
           case dict_get device ''extra'' of
             None \<Rightarrow> (devices, [], Some KeyError)
           | Some extra \<Rightarrow>
               (case py_getitem extra ''uiid'' of
                  Inl e \<Rightarrow> (devices, [], Some e)
                | Inr uiid \<Rightarrow>
                    (case format_04 pads_strings uiid of
                       Some e \<Rightarrow> (devices, [], Some e)
                     | None \<Rightarrow>
                         (case dict_get device ''params'' of
                            None \<Rightarrow> (devices, [], Some KeyError)
                          | Some _ \<Rightarrow>
                              (case init_entities entity_init (get_spec device) device of
                                 (ev, Some e) \<Rightarrow> (devices, ev, Some e)
                               | (ev, None) \<Rightarrow>
                                   (dict_set devices deviceid device,
                                    ev @ [Dispatch ''add_entities''
                                            [Entities (map (\<lambda>cls. (cls, device)) (get_spec device))]],
                                    None)))))))"

fun setup_devices ::
  "(dict \<Rightarrow> 'c list) \<Rightarrow> ('c \<Rightarrow> dict \<Rightarrow> 'c event list \<times> py_error option) \<Rightarrow> bool \<Rightarrow>
   pyval \<Rightarrow> registry \<Rightarrow> dict list \<Rightarrow> 'c result" where
  "setup_devices get_spec entity_init pads_strings config devices [] = (devices, [], None)"
| "setup_devices get_spec entity_init pads_strings config devices (device # rest) =
     (case setup_device get_spec entity_init pads_strings config devices device of
        (devices', ev, Some e) \<Rightarrow> (devices', ev, Some e)
      | (devices', ev, None) \<Rightarrow>
          (case setup_devices get_spec entity_init pads_strings config devices' rest of
             (devices'', ev', x) \<Rightarrow> (devices'', ev @ ev', x)))"

section \<open>The RF bridge entity\<close>

text \<open>
  \<^verbatim>\<open>XRemote.__init__\<close> and \<^verbatim>\<open>rfbridge_childs\<close> of \<^verbatim>\<open>remote.py\<close>.
  The constructor builds one child per learned channel and publishes them on
  \<^verbatim>\<open>"add_entities"\<close> itself, inside a \<^verbatim>\<open>try\<close> block that swallows every
  exception, and then runs \<^verbatim>\<open>XEntity.__init__\<close>.
\<close>

text \<open>\<^verbatim>\<open>for x in v\<close>: the elements of a list, the keys of a dictionary, the characters of a string.\<close>

fun py_iter :: "pyval \<Rightarrow> py_error + pyval list" where
  "py_iter (PList xs) = Inr xs"
| "py_iter (PDict d) = Inr (map (\<lambda>(k, v). PStr k) d)"
| "py_iter (PStr s) = Inr (map (\<lambda>c. PStr [c]) s)"
| "py_iter _ = Inl TypeError"

text \<open>
  \<^verbatim>\<open>x in v\<close> for any \<open>x\<close>. A dictionary wants a hashable key, and only a
  string can be one of its keys here; a string wants a string.
\<close>

fun py_contains :: "pyval \<Rightarrow> pyval \<Rightarrow> py_error + bool" where
  "py_contains (PStr k) (PDict d) = Inr (k \<in> set (map fst d))"
| "py_contains (PList xs) (PDict d) = Inl TypeError"
| "py_contains (PDict x) (PDict d) = Inl TypeError"
| "py_contains x (PDict d) = Inr False"
| "py_contains x (PList xs) = Inr (list_ex (py_eq x) xs)"
| "py_contains (PStr n) (PStr s) = Inr (str_contains n s)"
| "py_contains x _ = Inl TypeError"

text \<open>\<^verbatim>\<open>xs[i]\<close> for an integer \<open>i\<close>, counted from the end when negative.\<close>

definition py_index :: "'a list \<Rightarrow> int \<Rightarrow> py_error + 'a" where
  "py_index xs i =
     (if 0 \<le> i \<and> i < int (length xs) then Inr (xs ! nat i)
      else if i < 0 \<and> - int (length xs) \<le> i then Inr (xs ! nat (int (length xs) + i))
      else Inl IndexError)"

text \<open>\<^verbatim>\<open>v[k]\<close> for any \<open>k\<close>.\<close>

fun py_subscript :: "pyval \<Rightarrow> pyval \<Rightarrow> py_error + pyval" where
  "py_subscript (PDict d) (PStr k) = py_getitem (PDict d) k"
| "py_subscript (PDict d) (PList k) = Inl TypeError"
| "py_subscript (PDict d) (PDict k) = Inl TypeError"
| "py_subscript (PDict d) k = Inl KeyError"
| "py_subscript (PList xs) (PInt i) = py_index xs i"
| "py_subscript (PList xs) (PBool b) = py_index xs (if b then 1 else 0)"
| "py_subscript (PStr s) (PInt i) =
     (case py_index s i of Inl e \<Rightarrow> Inl e | Inr c \<Rightarrow> Inr (PStr [c]))"
| "py_subscript (PStr s) (PBool b) =
     (case py_index s (if b then 1 else 0) of Inl e \<Rightarrow> Inl e | Inr c \<Rightarrow> Inr (PStr [c]))"
| "py_subscript v k = Inl TypeError"

text \<open>\<^verbatim>\<open>d.pop(k)\<close> for a key that is present: the entry is removed.\<close>

definition dict_delete :: "('k \<times> 'v) list \<Rightarrow> 'k \<Rightarrow> ('k \<times> 'v) list" where
  "dict_delete d k = filter (\<lambda>(k', v). k' \<noteq> k) d"

text \<open>
  \<^verbatim>\<open>str(v)\<close>. The text of a float, of a list and of a dictionary is not
  modelled: \<open>None\<close> stands for a text that equals no channel name.
\<close>

definition digit :: "nat \<Rightarrow> char" where
  "digit n = ''0123456789'' ! (n mod 10)"

function str_nat :: "nat \<Rightarrow> string" where
  "str_nat n = (if n < 10 then [digit n] else str_nat (n div 10) @ [digit n])"
  by pat_completeness auto
termination
  by (relation "measure id") auto

declare str_nat.simps [simp del]

fun py_str :: "pyval \<Rightarrow> string option" where
  "py_str (PStr s) = Some s"
| "py_str (PInt i) = Some (if i < 0 then CHR ''-'' # str_nat (nat (- i)) else str_nat (nat i))"
| "py_str (PBool b) = Some (if b then ''True'' else ''False'')"
| "py_str PNone = Some ''None''"
| "py_str _ = None"

subsection \<open>The children of a bridge\<close>

text \<open>
  \<^verbatim>\<open>channel = next(iter(button))\<close>. A button is a dictionary with the
  channel as its only key; a first element that is not a string is outside what
  the model keeps as a channel.
\<close>

definition first_key :: "pyval \<Rightarrow> py_error + string" where
  "first_key button =
     (case py_iter button of
        Inl e \<Rightarrow> Inl e
      | Inr [] \<Rightarrow> Inl StopIteration
      | Inr (PStr channel # _) \<Rightarrow> Inr channel
      | Inr (_ # _) \<Rightarrow> Inl IllTyped)"

text \<open>The child dictionary of a button, before the YAML override.\<close>

definition rf_child :: "pyval \<Rightarrow> pyval \<Rightarrow> string \<Rightarrow> py_error + dict" where
  "rf_child remote button channel =
     (case py_getitem remote ''remote_type'' of
        Inl e \<Rightarrow> Inl e
      | Inr remote_type \<Rightarrow>
          if \<not> py_eq remote_type (PStr ''6'') then
            (case py_getitem button channel of
               Inl e \<Rightarrow> Inl e
             | Inr name \<Rightarrow> Inr [(''name'', name), (''device_class'', PStr ''button'')])
          else
            (case py_getitem remote ''name'' of
               Inl e \<Rightarrow> Inl e
             | Inr name \<Rightarrow> Inr [(''name'', name)]))"

text \<open>
  \<^verbatim>\<open>if child["name"] in yaml\<close>: the override is merged, a
  \<^verbatim>\<open>payload_off\<close> is noted in \<^verbatim>\<open>duals\<close>, and a button with a
  \<^verbatim>\<open>payload_off\<close> or a \<^verbatim>\<open>timeout\<close> stops being a button.
\<close>

definition rf_override ::
  "pyval \<Rightarrow> string \<Rightarrow> dict \<Rightarrow> (string \<times> pyval) list \<Rightarrow> py_error + dict \<times> (string \<times> pyval) list" where
  "rf_override yaml channel child duals =
     (case dict_get child ''name'' of
        None \<Rightarrow> Inl KeyError
      | Some name \<Rightarrow>
          (case py_contains name yaml of
             Inl e \<Rightarrow> Inl e
           | Inr False \<Rightarrow> Inr (child, duals)
           | Inr True \<Rightarrow>
               (case py_subscript yaml name of
                  Inl e \<Rightarrow> Inl e
                | Inr other \<Rightarrow>
                    (case py_update child other of
                       Inl e \<Rightarrow> Inl e
                     | Inr child' \<Rightarrow>
                         Inr (if py_eq (case dict_get child' ''device_class'' of
                                          None \<Rightarrow> PNone | Some c \<Rightarrow> c) (PStr ''button'')
                                 \<and> (''payload_off'' \<in> set (map fst child')
                                      \<or> ''timeout'' \<in> set (map fst child'))
                              then dict_delete child' ''device_class'' else child',
                              case dict_get child' ''payload_off'' of
                                None \<Rightarrow> duals
                              | Some off \<Rightarrow> dict_set duals channel off)))))"

text \<open>\<^verbatim>\<open>for button in remote["buttonName"]\<close> and \<^verbatim>\<open>for remote in remotes\<close>.\<close>

fun rf_buttons ::
  "pyval \<Rightarrow> pyval \<Rightarrow> pyval list \<Rightarrow> (string \<times> dict) list \<times> (string \<times> pyval) list \<Rightarrow>
   py_error + (string \<times> dict) list \<times> (string \<times> pyval) list" where
  "rf_buttons yaml remote [] acc = Inr acc"
| "rf_buttons yaml remote (button # rest) (childs, duals) =
     (case first_key button of
        Inl e \<Rightarrow> Inl e
      | Inr channel \<Rightarrow>
          (case rf_child remote button channel of
             Inl e \<Rightarrow> Inl e
           | Inr child \<Rightarrow>
               (case rf_override yaml channel child duals of
                  Inl e \<Rightarrow> Inl e
                | Inr (child', duals') \<Rightarrow>
                    rf_buttons yaml remote rest
                      (dict_set childs channel (dict_set child' ''channel'' (PStr channel)),
                       duals'))))"

fun rf_remotes ::
  "pyval \<Rightarrow> pyval list \<Rightarrow> (string \<times> dict) list \<times> (string \<times> pyval) list \<Rightarrow>
   py_error + (string \<times> dict) list \<times> (string \<times> pyval) list" where
  "rf_remotes yaml [] acc = Inr acc"
| "rf_remotes yaml (remote # rest) acc =
     (case py_getitem remote ''buttonName'' of
        Inl e \<Rightarrow> Inl e
      | Inr names \<Rightarrow>
          (case py_iter names of
             Inl e \<Rightarrow> Inl e
           | Inr buttons \<Rightarrow>
               (case rf_buttons yaml remote buttons acc of
                  Inl e \<Rightarrow> Inl e
                | Inr acc' \<Rightarrow> rf_remotes yaml rest acc')))"

text \<open>\<^verbatim>\<open>next(k for k, v in childs.items() if v["name"] == name)\<close>.\<close>

fun find_named :: "pyval \<Rightarrow> (string \<times> dict) list \<Rightarrow> py_error + string \<times> dict" where
  "find_named name [] = Inl StopIteration"
| "find_named name ((k, v) # rest) =
     (case dict_get v ''name'' of
        None \<Rightarrow> Inl KeyError
      | Some n \<Rightarrow> if py_eq n name then Inr (k, v) else find_named name rest)"

text \<open>
  The loop over \<^verbatim>\<open>duals\<close>: the off channel moves to the end of the
  dictionary and learns the channel that switches it on.
\<close>

fun rf_duals :: "(string \<times> pyval) list \<Rightarrow> (string \<times> dict) list \<Rightarrow> py_error + (string \<times> dict) list" where
  "rf_duals [] childs = Inr childs"
| "rf_duals ((ch, name) # rest) childs =
     (case find_named name childs of
        Inl e \<Rightarrow> Inl e
      | Inr (ch_off, child) \<Rightarrow>
          rf_duals rest
            (dict_delete childs ch_off @ [(ch_off, dict_set child ''channel_on'' (PStr ch))]))"

text \<open>
  \<^verbatim>\<open>rfbridge_childs\<close>. \<^verbatim>\<open>XRegistry.config\<close> is the class attribute the
  registry reads as \<^verbatim>\<open>self.config\<close>.
\<close>

definition rfbridge_childs :: "pyval \<Rightarrow> pyval \<Rightarrow> py_error + (string \<times> dict) list" where
  "rfbridge_childs config remotes =
     (let yaml = (case py_getitem config ''rfbridge'' of Inl _ \<Rightarrow> PDict [] | Inr y \<Rightarrow> y) in
      case py_iter remotes of
        Inl e \<Rightarrow> Inl e
      | Inr rs \<Rightarrow>
          (case rf_remotes yaml rs ([], []) of
             Inl e \<Rightarrow> Inl e
           | Inr (childs, duals) \<Rightarrow> rf_duals duals childs))"

subsection \<open>The constructor\<close>

text \<open>\<^verbatim>\<open>[str(c["rfChl"]) for c in device["params"]["rfList"]]\<close>.\<close>

fun channel_names :: "pyval list \<Rightarrow> py_error + string option list" where
  "channel_names [] = Inr []"
| "channel_names (c # rest) =
     (case py_getitem c ''rfChl'' of
        Inl e \<Rightarrow> Inl e
      | Inr v \<Rightarrow>
          (case channel_names rest of
             Inl e \<Rightarrow> Inl e
           | Inr names \<Rightarrow> Inr (py_str v # names)))"

definition learned_channels :: "dict \<Rightarrow> py_error + string option list" where
  "learned_channels device =
     (case py_getitem (PDict device) ''params'' of
        Inl e \<Rightarrow> Inl e
      | Inr params \<Rightarrow>
          (case py_getitem params ''rfList'' of
             Inl e \<Rightarrow> Inl e
           | Inr rf_list \<Rightarrow>
               (case py_iter rf_list of
                  Inl e \<Rightarrow> Inl e
                | Inr cs \<Rightarrow> channel_names cs)))"

text \<open>The entity a learned channel gets, from its child dictionary and the current \<^verbatim>\<open>childs\<close>.\<close>

definition new_child :: "dict \<Rightarrow> dict \<Rightarrow> (string \<times> child) list \<Rightarrow> py_error + child" where
  "new_child device child childs =
     (case dict_get child ''channel_on'' of
        Some (PStr on) \<Rightarrow>
          (case dict_get childs on of
             None \<Rightarrow> Inl KeyError
           | Some sensor \<Rightarrow> Inr (SensorOff child sensor))
      | Some (PList _) \<Rightarrow> Inl TypeError
      | Some (PDict _) \<Rightarrow> Inl TypeError
      | Some _ \<Rightarrow> Inl KeyError
      | None \<Rightarrow>
          if py_eq (case dict_get child ''device_class'' of None \<Rightarrow> PNone | Some c \<Rightarrow> c)
               (PStr ''button'')
          then Inr (Button device child)
          else Inr (Sensor device child))"

text \<open>
  \<^verbatim>\<open>for ch, child in childs.items()\<close>. The constructors of the three child
  classes are outside this module: \<open>child_init\<close> gives what one publishes
  and raises.
\<close>

fun remote_childs ::
  "(child \<Rightarrow> 'c event list \<times> py_error option) \<Rightarrow> dict \<Rightarrow> string option list \<Rightarrow>
   (string \<times> dict) list \<Rightarrow> (string \<times> child) list \<Rightarrow>
   (string \<times> child) list \<times> 'c event list \<times> py_error option" where
  "remote_childs child_init device channels [] childs = (childs, [], None)"
| "remote_childs child_init device channels ((ch, child) # rest) childs =
     (if Some ch \<notin> set channels then remote_childs child_init device channels rest childs
      else
        (case new_child device child childs of
           Inl e \<Rightarrow> (childs, [], Some e)
         | Inr entity \<Rightarrow>
             (case child_init entity of
                (ev, Some e) \<Rightarrow> (childs, ev, Some e)
              | (ev, None) \<Rightarrow>
                  (case remote_childs child_init device channels rest (dict_set childs ch entity) of
                     (childs', ev', x) \<Rightarrow> (childs', ev @ ev', x)))))"

text \<open>
  The \<^verbatim>\<open>try\<close> block of \<^verbatim>\<open>XRemote.__init__\<close>: what was published when it
  ends, by its last line or by an exception, which is logged and dropped.
\<close>

definition xremote_childs ::
  "pyval \<Rightarrow> (child \<Rightarrow> 'c event list \<times> py_error option) \<Rightarrow> dict \<Rightarrow> 'c event list" where
  "xremote_childs config child_init device =
     (case learned_channels device of
        Inl _ \<Rightarrow> []
      | Inr channels \<Rightarrow>
          (case py_getitem (PDict device) ''tags'' of
             Inl _ \<Rightarrow> []
           | Inr tags \<Rightarrow>
               (case py_getitem tags ''zyx_info'' of
                  Inl _ \<Rightarrow> []
                | Inr remotes \<Rightarrow>
                    (case rfbridge_childs config remotes of
                       Inl _ \<Rightarrow> []
                     | Inr childs \<Rightarrow>
                         (case remote_childs child_init device channels childs
                                 (map (\<lambda>(ch, child). (ch, Raw child)) childs) of
                            (childs', ev, Some _) \<Rightarrow> ev
                          | (childs', ev, None) \<Rightarrow>
                              ev @ [Dispatch ''add_entities'' [Childs (map snd childs')]])))))"

text \<open>
  \<^verbatim>\<open>XRemote.__init__\<close>: the children first, then \<^verbatim>\<open>XEntity.__init__\<close>,
  which is outside this module and given by \<open>xentity_init\<close>.
\<close>

definition xremote_init ::
  "pyval \<Rightarrow> (child \<Rightarrow> 'c event list \<times> py_error option) \<Rightarrow>
   (dict \<Rightarrow> 'c event list \<times> py_error option) \<Rightarrow> dict \<Rightarrow> 'c event list \<times> py_error option" where
  "xremote_init config child_init xentity_init device =
     (case xentity_init device of
        (ev, x) \<Rightarrow> (xremote_childs config child_init device @ ev, x))"

section \<open>Local update reconciliation\<close>

text \<open>\<^verbatim>\<open>params\<close> when \<^verbatim>\<open>not params\<close> is false.\<close>

definition present :: "pyval option \<Rightarrow> pyval option" where
  "present params =
     (case params of None \<Rightarrow> None | Some v \<Rightarrow> if truthy v then Some v else None)"

text \<open>\<^verbatim>\<open>self.config["devices"][did]["devicekey"]\<close>.\<close>

definition config_devicekey :: "pyval \<Rightarrow> string \<Rightarrow> py_error + pyval" where
  "config_devicekey config did =
     (case config_override config did of
        Inl e \<Rightarrow> Inl e
      | Inr entry \<Rightarrow> py_getitem entry ''devicekey'')"

text \<open>
  The call in the \<^verbatim>\<open>try\<close> block of the unknown-device branch:
  \<^verbatim>\<open>self.local.decrypt_msg(msg, self.config["devices"][did]["devicekey"])\<close>.
  The key lookup is evaluated first and may raise as well.
\<close>

definition config_decrypt ::
  "(dict \<Rightarrow> pyval \<Rightarrow> py_error + pyval) \<Rightarrow> pyval \<Rightarrow> dict \<Rightarrow> string \<Rightarrow> py_error + pyval" where
  "config_decrypt decrypt_msg config msg did =
     (case config_devicekey config did of
        Inl e \<Rightarrow> Inl e
      | Inr devicekey \<Rightarrow> decrypt_msg msg devicekey)"

text \<open>\<^verbatim>\<open>msg.get("host")\<close>.\<close>

definition msg_host :: "dict \<Rightarrow> pyval" where
  "msg_host msg = (case dict_get msg ''host'' of None \<Rightarrow> PNone | Some h \<Rightarrow> h)"

text \<open>
  Lines 170 to 180 of \<^verbatim>\<open>local_update\<close>, shared by its three branches.
  \<open>key\<close> is the id under which \<open>device\<close> is registered.
\<close>

definition local_common ::
  "registry \<Rightarrow> string \<Rightarrow> dict \<Rightarrow> dict \<Rightarrow> string \<Rightarrow> pyval \<Rightarrow> 'c result" where
  "local_common devices key device msg did params =
     (case py_in ''online'' params of
        Inl e \<Rightarrow> (devices, [], Some e)
      | Inr True \<Rightarrow>
          (case py_getitem params ''online'' of
             Inl e \<Rightarrow> (devices, [], Some e)
           | Inr v \<Rightarrow>
               if v = PNone then (devices, [CheckOffline device], None)
               else if v = PBool False then (devices, [Dispatch did []], None)
               else (devices, [], None))
      | Inr False \<Rightarrow>
          (dict_set devices key (dict_set device ''host'' (msg_host msg)),
           [Dispatch did [Val params]], None))"

text \<open>
  \<^verbatim>\<open>XRegistry.local_update\<close>. The collaborators \<^verbatim>\<open>self.local.decrypt_msg\<close>,
  \<^verbatim>\<open>setup_diy\<close>, \<^verbatim>\<open>get_spec\<close> and the entity constructors are
  parameters; decryption may raise.
  After \<^verbatim>\<open>setup_diy\<close> the message is read for \<^verbatim>\<open>deviceid\<close> and
  \<^verbatim>\<open>host\<close> only, which the model takes from the message passed to it.
\<close>

definition local_update ::
  "(dict \<Rightarrow> pyval \<Rightarrow> py_error + pyval) \<Rightarrow> (dict \<Rightarrow> dict) \<Rightarrow> (dict \<Rightarrow> 'c list) \<Rightarrow>
   ('c \<Rightarrow> dict \<Rightarrow> 'c event list \<times> py_error option) \<Rightarrow> bool \<Rightarrow>
   pyval \<Rightarrow> registry \<Rightarrow> dict \<Rightarrow> 'c result" where
  "local_update decrypt_msg setup_diy get_spec entity_init pads_strings config devices msg0 =
     (case msg_deviceid msg0 of
        Inl e \<Rightarrow> (devices, [], Some e)
      | Inr did \<Rightarrow>
          (case known_device (dict_get devices did) of
             None \<Rightarrow>
               (case (case present (dict_get msg0 ''params'') of
                        Some params \<Rightarrow> Inr (msg0, params)
                      | None \<Rightarrow>
                          (case config_decrypt decrypt_msg config msg0 did of
                             Inl e \<Rightarrow> Inl e
                           | Inr params \<Rightarrow> Inr (dict_set msg0 ''params'' params, params)))
                of
                  Inl _ \<Rightarrow> (dict_set devices did msg0, [], None)
                | Inr (msg, params) \<Rightarrow>
                    (let device0 = setup_diy msg in
                     case setup_devices get_spec entity_init pads_strings config devices [device0] of
                       (devices', ev, Some e) \<Rightarrow> (devices', ev, Some e)
                     | (devices', ev, None) \<Rightarrow>
                         (case msg_deviceid device0 of
                            Inl e \<Rightarrow> (devices', ev, Some e)
                          | Inr key \<Rightarrow>
                              (case local_common devices' key (apply_override config key device0)
                                      msg did params of
                                 (devices'', ev', x) \<Rightarrow> (devices'', ev @ ev', x)))))
           | Some device \<Rightarrow>
               (case present (dict_get msg0 ''params'') of
                  Some params \<Rightarrow> local_common devices did device msg0 did params
                | None \<Rightarrow>
                    (case dict_get device ''devicekey'' of
                       None \<Rightarrow> (devices, [], None)
                     | Some devicekey \<Rightarrow>
                         (case decrypt_msg msg0 devicekey of
                            Inl _ \<Rightarrow> (devices, [], None)
                          | Inr params \<Rightarrow> local_common devices did device msg0 did params)))))"

section \<open>Command dispatch\<close>

text \<open>\<^verbatim>\<open>a or b\<close>.\<close>

definition py_or :: "pyval \<Rightarrow> pyval \<Rightarrow> pyval" where
  "py_or a b = (if truthy a then a else b)"

text \<open>\<^verbatim>\<open>flag and device.get(key)\<close>, where an absent key gives \<^verbatim>\<open>None\<close>.\<close>

definition can_use :: "bool \<Rightarrow> dict \<Rightarrow> string \<Rightarrow> bool" where
  "can_use flag device key =
     (flag \<and> (case dict_get device key of None \<Rightarrow> False | Some v \<Rightarrow> truthy v))"

text \<open>
  \<^verbatim>\<open>XRegistry.send\<close>. \<open>local_online\<close> and \<open>cloud_online\<close> are the
  transports' flags, \<open>local_send\<close> and \<open>cloud_send\<close> the outcomes their
  \<^verbatim>\<open>send\<close> reports for the given arguments, \<open>seq\<close> the value of
  \<^verbatim>\<open>self.sequence()\<close>. The method has no raising operation of its own and
  touches no record, so its model is the list of transport calls it makes.
\<close>

definition send ::
  "bool \<Rightarrow> bool \<Rightarrow> (dict \<Rightarrow> pyval \<Rightarrow> string \<Rightarrow> int \<Rightarrow> pyval) \<Rightarrow>
   (dict \<Rightarrow> pyval option \<Rightarrow> string option \<Rightarrow> int option \<Rightarrow> pyval) \<Rightarrow>
   string \<Rightarrow> dict \<Rightarrow> pyval \<Rightarrow> pyval \<Rightarrow> bool \<Rightarrow> 'c event list" where
  "send local_online cloud_online local_send cloud_send seq device params params_lan query_cloud =
     (let can_local = can_use local_online device ''host'';
          can_cloud = can_use cloud_online device ''online''
      in if can_local \<and> can_cloud then
           LocalSend device (py_or params_lan params) seq 1 #
           (if \<not> py_eq (local_send device (py_or params_lan params) seq 1) (PStr ''online'') then
              CloudSend device (Some params) (Some seq) None #
              (if \<not> py_eq (cloud_send device (Some params) (Some seq) None) (PStr ''online'')
               then [CheckOffline device]
               else if query_cloud then [CloudSend device None None (Some 0)]
               else [])
            else [])
         else if can_local then
           LocalSend device (py_or params_lan params) seq 5 #
           (if \<not> py_eq (local_send device (py_or params_lan params) seq 5) (PStr ''online'')
            then [CheckOffline device]
            else [])
         else if can_cloud then
           CloudSend device (Some params) (Some seq) None #
           (if py_eq (cloud_send device (Some params) (Some seq) None) (PStr ''online'') \<and> query_cloud
            then [CloudSend device None None (Some 0)]
            else [])
         else [])"

section \<open>Cloud connection hook\<close>

text \<open>
  The event loop's view of the activation tasks: \<open>finished\<close> holds, for
  every \<^verbatim>\<open>pow_helper\<close> task created so far, what its \<^verbatim>\<open>done()\<close> answers,
  and \<open>task\<close> is \<^verbatim>\<open>self.task\<close>, the position of the task it refers to.
\<close>

record scheduler =
  task :: "nat option"
  finished :: "bool list"

definition task_done :: "scheduler \<Rightarrow> nat \<Rightarrow> bool" where
  "task_done s i = (i < length (finished s) \<and> finished s ! i)"

text \<open>\<^verbatim>\<open>not self.task or self.task.done()\<close>; a task object is never falsy.\<close>

definition needs_task :: "scheduler \<Rightarrow> bool" where
  "needs_task s = (case task s of None \<Rightarrow> True | Some i \<Rightarrow> task_done s i)"

text \<open>\<^verbatim>\<open>XRegistry.cloud_connected\<close>.\<close>

definition cloud_connected :: "registry \<Rightarrow> scheduler \<Rightarrow> 'c event list \<times> scheduler" where
  "cloud_connected devices s =
     (map (\<lambda>deviceid. Dispatch deviceid []) (map fst devices) @
        (if needs_task s then [CreateTask] else []),
      if needs_task s
      then \<lparr>task = Some (length (finished s)), finished = finished s @ [False]\<rparr>
      else s)"

text \<open>
  What can happen to the tasks over time: the cloud transport reports a
  connection, or the event loop finishes a task (it returned, raised or was
  cancelled).
\<close>

datatype step =
    Connected registry
  | Finish nat

fun run :: "step list \<Rightarrow> scheduler \<Rightarrow> scheduler" where
  "run [] s = s"
| "run (Connected devices # steps) s =
     run steps (snd (cloud_connected devices s :: unit event list \<times> scheduler))"
| "run (Finish i # steps) s = run steps (s\<lparr>finished := (finished s)[i := True]\<rparr>)"

text \<open>The state \<^verbatim>\<open>__init__\<close> leaves: \<^verbatim>\<open>task\<close> is \<^verbatim>\<open>None\<close> and no task exists.\<close>

definition init :: scheduler where
  "init = \<lparr>task = None, finished = []\<rparr>"

definition alive :: "scheduler \<Rightarrow> nat" where
  "alive s = length (filter Not (finished s))"

text \<open>Every task that has not finished is the one \<^verbatim>\<open>self.task\<close> refers to.\<close>

definition owned :: "scheduler \<Rightarrow> bool" where
  "owned s = (\<forall>i < length (finished s). \<not> finished s ! i \<longrightarrow> task s = Some i)"

section \<open>Periodic activation loop\<close>

text \<open>
  \<^verbatim>\<open>POW_UI_ACTIVE\<close> is defined in \<^verbatim>\<open>core/devices.py\<close>, outside this
  module: a dictionary from an integer uiid to the pair of a refresh interval and
  the activation params. It is a parameter of the model.
\<close>

type_synonym pow_table = "(int \<times> real \<times> pyval) list"

text \<open>
  The integer key a value hashes and compares equal to, if any; lists and
  dictionaries are unhashable.
\<close>

fun pow_key :: "pyval \<Rightarrow> py_error + int option" where
  "pow_key (PInt i) = Inr (Some i)"
| "pow_key (PBool b) = Inr (Some (if b then 1 else 0))"
| "pow_key (PFloat r) = Inr (if of_int \<lfloor>r\<rfloor> = r then Some \<lfloor>r\<rfloor> else None)"
| "pow_key PNone = Inr None"
| "pow_key (PStr s) = Inr None"
| "pow_key _ = Inl TypeError"

text \<open>\<^verbatim>\<open>uiid in POW_UI_ACTIVE\<close> and \<^verbatim>\<open>POW_UI_ACTIVE[uiid]\<close>.\<close>

definition table_in :: "pow_table \<Rightarrow> pyval \<Rightarrow> py_error + bool" where
  "table_in t uiid =
     (case pow_key uiid of
        Inl e \<Rightarrow> Inl e
      | Inr None \<Rightarrow> Inr False
      | Inr (Some k) \<Rightarrow> Inr (k \<in> set (map fst t)))"

definition table_get :: "pow_table \<Rightarrow> pyval \<Rightarrow> py_error + real \<times> pyval" where
  "table_get t uiid =
     (case pow_key uiid of
        Inl e \<Rightarrow> Inl e
      | Inr None \<Rightarrow> Inl KeyError
      | Inr (Some k) \<Rightarrow> (case dict_get t k of None \<Rightarrow> Inl KeyError | Some entry \<Rightarrow> Inr entry))"

text \<open>\<^verbatim>\<open>"extra" in device and device["extra"]["uiid"] in POW_UI_ACTIVE\<close>.\<close>

definition pow_eligible :: "pow_table \<Rightarrow> dict \<Rightarrow> py_error + bool" where
  "pow_eligible t device =
     (case dict_get device ''extra'' of
        None \<Rightarrow> Inr False
      | Some extra \<Rightarrow>
          (case py_getitem extra ''uiid'' of
             Inl e \<Rightarrow> Inl e
           | Inr uiid \<Rightarrow> table_in t uiid))"

text \<open>The list comprehension that collects the pow devices.\<close>

fun pow_devices :: "pow_table \<Rightarrow> dict list \<Rightarrow> py_error + dict list" where
  "pow_devices t [] = Inr []"
| "pow_devices t (device # rest) =
     (case pow_eligible t device of
        Inl e \<Rightarrow> Inl e
      | Inr b \<Rightarrow>
          (case pow_devices t rest of
             Inl e \<Rightarrow> Inl e
           | Inr ds \<Rightarrow> Inr (if b then device # ds else ds)))"

text \<open>\<^verbatim>\<open>v > ts\<close> for the float \<open>ts\<close>: only a number can be compared with it.\<close>

definition py_gt :: "pyval \<Rightarrow> real \<Rightarrow> py_error + bool" where
  "py_gt v ts = (case py_num v of None \<Rightarrow> Inl TypeError | Some x \<Rightarrow> Inr (x > ts))"

text \<open>
  The body of \<^verbatim>\<open>for device in devices\<close> at time \<open>ts\<close>: the record as it is
  left, the cloud call made and the exception raised, if any. The deadline is
  stored before the call, so the call sees it.
\<close>

definition pow_visit :: "pow_table \<Rightarrow> real \<Rightarrow> dict \<Rightarrow> dict \<times> 'c event list \<times> py_error option" where
  "pow_visit t ts device =
     (case dict_get device ''online'' of
        None \<Rightarrow> (device, [], Some KeyError)
      | Some on \<Rightarrow>
          if \<not> truthy on then (device, [], None)
          else
            (case py_gt (case dict_get device ''pow_ts'' of None \<Rightarrow> PInt 0 | Some p \<Rightarrow> p) ts of
               Inl e \<Rightarrow> (device, [], Some e)
             | Inr True \<Rightarrow> (device, [], None)
             | Inr False \<Rightarrow>
                 (case dict_get device ''extra'' of
                    None \<Rightarrow> (device, [], Some KeyError)
                  | Some extra \<Rightarrow>
                      (case py_getitem extra ''uiid'' of
                         Inl e \<Rightarrow> (device, [], Some e)
                       | Inr uiid \<Rightarrow>
                           (case table_get t uiid of
                              Inl e \<Rightarrow> (device, [], Some e)
                            | Inr (dt, params) \<Rightarrow>
                                (let device' = dict_set device ''pow_ts'' (PFloat (ts + dt))
                                 in (device', [CloudSend device' (Some params) None (Some 0)],
                                     None)))))))"

text \<open>
  The collected records are the registry's own dictionaries: what the update
  handlers do to them while the task is suspended is seen by the task when it
  resumes. The task is suspended at each \<^verbatim>\<open>await\<close>. \<open>disturb f\<close> is the
  effect of one suspension on the collected records, \<open>f j\<close> being what
  happened to the contents of record number \<open>j\<close>.
\<close>

definition disturb :: "(nat \<Rightarrow> dict \<Rightarrow> dict) \<Rightarrow> dict list \<Rightarrow> dict list" where
  "disturb f devices = map (\<lambda>(j, device). f j device) (zip [0..<length devices] devices)"

text \<open>
  \<^verbatim>\<open>for device in devices\<close> at time \<open>ts\<close>, with the records already
  visited in \<open>seen\<close>. After a send to record number \<open>i\<close> the task awaits
  the cloud, and \<open>during_send i\<close> is what the other tasks did meanwhile.
\<close>

function pow_sweep ::
  "pow_table \<Rightarrow> real \<Rightarrow> (nat \<Rightarrow> nat \<Rightarrow> dict \<Rightarrow> dict) \<Rightarrow> dict list \<Rightarrow> dict list \<Rightarrow>
   dict list \<times> 'c event list \<times> py_error option" where
  "pow_sweep t ts during_send seen [] = (seen, [], None)"
| "pow_sweep t ts during_send seen (device # rest) =
     (case pow_visit t ts device of
        (device', ev, Some e) \<Rightarrow> (seen @ device' # rest, ev, Some e)
      | (device', ev, None) \<Rightarrow>
          (let devices = (if ev = [] then seen @ device' # rest
                          else disturb (during_send (length seen)) (seen @ device' # rest))
           in case pow_sweep t ts during_send
                     (take (Suc (length seen)) devices) (drop (Suc (length seen)) devices) of
                (devices', ev', x) \<Rightarrow> (devices', ev @ ev', x)))"
  by pat_completeness auto
termination
  by (relation "measure (\<lambda>(t, ts, during_send, seen, rest). length rest)")
    (auto simp: disturb_def)

text \<open>
  How a run of the task stands: it returned, it died of an exception, or it is
  still in its \<^verbatim>\<open>while True\<close> when the observations end.
\<close>

datatype status =
    Returned
  | Raised py_error
  | Looping

text \<open>
  What the task meets in one turn of \<^verbatim>\<open>while True\<close>:
  \<^verbatim>\<open>self.cloud.online\<close>, the value of \<^verbatim>\<open>time.time()\<close>, what the other
  tasks do to the collected records during each send, and what they do during
  the sleep that ends the turn.
\<close>

datatype turn =
  Turn bool real "nat \<Rightarrow> nat \<Rightarrow> dict \<Rightarrow> dict" "nat \<Rightarrow> dict \<Rightarrow> dict"

text \<open>
  The \<^verbatim>\<open>while True\<close> loop over the collected records. The list of turns is
  the fuel of the loop.
\<close>

fun pow_loop ::
  "pow_table \<Rightarrow> turn list \<Rightarrow> dict list \<Rightarrow> dict list \<times> 'c event list \<times> status" where
  "pow_loop t [] devices = (devices, [], Looping)"
| "pow_loop t (Turn cloud_online ts during_send during_sleep # turns) devices =
     (if \<not> cloud_online then
        (case pow_loop t turns (disturb during_sleep devices) of
           (devices', ev, st) \<Rightarrow> (devices', Sleep 60 # ev, st))
      else
        (case pow_sweep t ts during_send [] devices of
           (devices', ev, Some e) \<Rightarrow> (devices', ev, Raised e)
         | (devices', ev, None) \<Rightarrow>
             (case pow_loop t turns (disturb during_sleep devices') of
                (devices'', ev', st) \<Rightarrow> (devices'', ev @ Sleep 150 # ev', st))))"

text \<open>
  \<^verbatim>\<open>XRegistry.pow_helper\<close>, started on the registry \<open>devices\<close>. The
  result holds the collected records as the run leaves them.
\<close>

definition pow_helper ::
  "pow_table \<Rightarrow> registry \<Rightarrow> turn list \<Rightarrow> dict list \<times> 'c event list \<times> status" where
  "pow_helper t devices turns =
     (case pow_devices t (map snd devices) of
        Inl e \<Rightarrow> ([], [], Raised e)
      | Inr ds \<Rightarrow> if ds = [] then ([], [], Returned) else pow_loop t turns ds)"

section \<open>The activation of one device as the specification words it\<close>

text \<open>
  Section 4.7 of the specification on what a sweep does with one collected
  device, against which the body of the loop is compared. A device is eligible
  when its capability id is in the activation table; it is due at time \<open>ts\<close>
  when its state is online and its \<^verbatim>\<open>pow_ts\<close> deadline (zero when it has
  none) has elapsed.
\<close>

definition activation :: "pow_table \<Rightarrow> dict \<Rightarrow> (real \<times> pyval) option" where
  "activation t device =
     (case dict_get device ''extra'' of
        Some (PDict extra) \<Rightarrow>
          (case dict_get extra ''uiid'' of
             None \<Rightarrow> None
           | Some uiid \<Rightarrow>
               (case pow_key uiid of
                  Inr (Some k) \<Rightarrow> dict_get t k
                | _ \<Rightarrow> None))
      | _ \<Rightarrow> None)"

definition activation_due :: "real \<Rightarrow> dict \<Rightarrow> bool" where
  "activation_due ts device =
     ((case dict_get device ''online'' of None \<Rightarrow> False | Some v \<Rightarrow> truthy v) \<and>
      (case dict_get device ''pow_ts'' of
         None \<Rightarrow> 0 \<le> ts
       | Some p \<Rightarrow> (case py_num p of None \<Rightarrow> False | Some x \<Rightarrow> x \<le> ts)))"

text \<open>The record with its next eligible time set to \<open>ts\<close> plus the refresh interval.\<close>

definition activate :: "pow_table \<Rightarrow> real \<Rightarrow> dict \<Rightarrow> dict" where
  "activate t ts device =
     (case activation t device of
        None \<Rightarrow> device
      | Some (dt, params) \<Rightarrow> dict_set device ''pow_ts'' (PFloat (ts + dt)))"

text \<open>The activation command, sent through the cloud with a zero timeout.\<close>

definition pulse :: "pow_table \<Rightarrow> real \<Rightarrow> dict \<Rightarrow> 'c event list" where
  "pulse t ts device =
     (case activation t device of
        None \<Rightarrow> []
      | Some (dt, params) \<Rightarrow> [CloudSend (activate t ts device) (Some params) None (Some 0)])"

text \<open>
  A record the sweep can test: it has an \<^verbatim>\<open>online\<close> field, and its
  \<^verbatim>\<open>pow_ts\<close>, when it has one, is a number.
\<close>

definition timed :: "dict \<Rightarrow> bool" where
  "timed device =
     (dict_get device ''online'' \<noteq> None \<and>
      (case dict_get device ''pow_ts'' of None \<Rightarrow> True | Some p \<Rightarrow> py_num p \<noteq> None))"

section \<open>Sample inputs\<close>

text \<open>
  The scenario of the specification: device \<^verbatim>\<open>A1\<close> is registered and
  offline, and the cloud reports \<^verbatim>\<open>{switch: "on"}\<close> for it.
\<close>

definition a1_offline :: dict where
  "a1_offline = [(''deviceid'', PStr ''A1''), (''online'', PBool False)]"

definition a1_online :: dict where
  "a1_online = [(''deviceid'', PStr ''A1''), (''online'', PBool True)]"

definition switch_on :: pyval where
  "switch_on = PDict [(''switch'', PStr ''on'')]"

definition cloud_msg :: "pyval \<Rightarrow> dict" where
  "cloud_msg params = [(''deviceid'', PStr ''A1''), (''params'', params)]"

text \<open>A record that has never been given an \<^verbatim>\<open>online\<close> field, and one that holds \<^verbatim>\<open>None\<close>.\<close>

definition a1_unset :: dict where
  "a1_unset = [(''deviceid'', PStr ''A1'')]"

definition a1_none :: dict where
  "a1_none = [(''deviceid'', PStr ''A1''), (''online'', PNone)]"

text \<open>
  A broadcast of \<^verbatim>\<open>A1\<close> on the local network, with its payload still
  encrypted or with plain params, and collaborators to run the handlers on: a
  decryption that fails, one that succeeds, a DIY factory that adds the
  capability id, a capability factory with a single entity class, and a
  constructor that publishes nothing.
\<close>

definition encrypted_msg :: dict where
  "encrypted_msg =
     [(''deviceid'', PStr ''A1''), (''host'', PStr ''192.168.1.5''), (''data'', PStr ''c2VjcmV0'')]"

definition local_msg :: "pyval \<Rightarrow> dict" where
  "local_msg params =
     [(''deviceid'', PStr ''A1''), (''host'', PStr ''192.168.1.5''), (''params'', params)]"

definition key_config :: pyval where
  "key_config = PDict [(''devices'', PDict [(''A1'', PDict [(''devicekey'', PStr ''k1'')])])]"

definition decrypt_fail :: "dict \<Rightarrow> pyval \<Rightarrow> py_error + pyval" where
  "decrypt_fail msg devicekey = Inl ValueError"

definition decrypt_ok :: "dict \<Rightarrow> pyval \<Rightarrow> py_error + pyval" where
  "decrypt_ok msg devicekey = Inr switch_on"

definition diy_setup :: "dict \<Rightarrow> dict" where
  "diy_setup msg = dict_set msg ''extra'' (PDict [(''uiid'', PInt 1)])"

definition switch_spec :: "dict \<Rightarrow> string list" where
  "switch_spec device = [''XSwitch'']"

definition plain_init :: "string \<Rightarrow> dict \<Rightarrow> string event list \<times> py_error option" where
  "plain_init cls device = ([], None)"

text \<open>
  A record both transports can reach, and transports whose \<^verbatim>\<open>send\<close> reports
  a timeout or success.
\<close>

definition a1_reachable :: dict where
  "a1_reachable =
     [(''deviceid'', PStr ''A1''), (''online'', PBool True), (''host'', PStr ''192.168.1.5'')]"

definition local_timeout :: "dict \<Rightarrow> pyval \<Rightarrow> string \<Rightarrow> int \<Rightarrow> pyval" where
  "local_timeout device params seq timeout = PStr ''timeout''"

definition cloud_ok :: "dict \<Rightarrow> pyval option \<Rightarrow> string option \<Rightarrow> int option \<Rightarrow> pyval" where
  "cloud_ok device params seq timeout = PStr ''online''"

text \<open>An activation table with one power-monitoring capability, and a power meter that is online.\<close>

definition pow_table_1 :: pow_table where
  "pow_table_1 = [(32, 3600, PDict [(''uiActive'', PInt 7200)])]"

definition meter_on :: dict where
  "meter_on =
     [(''deviceid'', PStr ''P1''), (''extra'', PDict [(''uiid'', PInt 32)]), (''online'', PBool True)]"

text \<open>
  An RF bridge found on the local network: its configuration entry carries
  the key and the tags of the bridge, with no remote defined, the payload
  decrypts to an empty list of learned channels, and its only entity class is
  \<^verbatim>\<open>XRemote\<close>, built by \<open>xremote_init\<close> with child and base constructors
  that publish nothing.
\<close>

definition bridge_config :: pyval where
  "bridge_config =
     PDict [(''devices'',
             PDict [(''A1'', PDict [(''devicekey'', PStr ''k1''),
                                    (''tags'', PDict [(''zyx_info'', PList [])])])])]"

definition bridge_params :: pyval where
  "bridge_params = PDict [(''rfList'', PList [])]"

definition decrypt_bridge :: "dict \<Rightarrow> pyval \<Rightarrow> py_error + pyval" where
  "decrypt_bridge msg devicekey = Inr bridge_params"

definition diy_bridge :: "dict \<Rightarrow> dict" where
  "diy_bridge msg = dict_set msg ''extra'' (PDict [(''uiid'', PInt 28)])"

definition bridge_spec :: "dict \<Rightarrow> string list" where
  "bridge_spec device = [''XRemote'']"

definition no_child_events :: "child \<Rightarrow> string event list \<times> py_error option" where
  "no_child_events entity = ([], None)"

definition no_base_events :: "dict \<Rightarrow> string event list \<times> py_error option" where
  "no_base_events device = ([], None)"

definition bridge_init :: "string \<Rightarrow> dict \<Rightarrow> string event list \<times> py_error option" where
  "bridge_init cls device = xremote_init bridge_config no_child_events no_base_events device"

definition bridge_device :: dict where
  "bridge_device =
     [(''deviceid'', PStr ''A1''), (''host'', PStr ''192.168.1.5''), (''data'', PStr ''c2VjcmV0''),
      (''params'', bridge_params), (''extra'', PDict [(''uiid'', PInt 28)]),
      (''devicekey'', PStr ''k1''), (''tags'', PDict [(''zyx_info'', PList [])])]"

text \<open>
  A power meter that has no \<^verbatim>\<open>online\<close> field, suspensions during which
  nothing happens to the records, and one during which every record goes
  offline.
\<close>

definition meter_unset :: dict where
  "meter_unset = [(''deviceid'', PStr ''P0''), (''extra'', PDict [(''uiid'', PInt 32)])]"

definition quiet_send :: "nat \<Rightarrow> nat \<Rightarrow> dict \<Rightarrow> dict" where
  "quiet_send i j device = device"

definition quiet_sleep :: "nat \<Rightarrow> dict \<Rightarrow> dict" where
  "quiet_sleep j device = device"

definition goes_offline :: "nat \<Rightarrow> dict \<Rightarrow> dict" where
  "goes_offline j device = dict_set device ''online'' (PBool False)"

section \<open>Facts about values and dictionaries\<close>

lemma py_eq_refl: "py_eq x x"
proof (induction x)
  case (PList xs)
  then show ?case by (simp add: list_all2_same)
next
  case (PDict d)
  have "case map_of d k of None \<Rightarrow> False
        | Some v \<Rightarrow> (case map_of d k of None \<Rightarrow> False | Some w \<Rightarrow> py_eq v w)"
    if "k \<in> set (map fst d)" for k
  proof -
    from that obtain v where v: "map_of d k = Some v"
      by (metis map_of_eq_None_iff not_Some_eq set_map)
    then have "(k, v) \<in> set d" by (rule map_of_SomeD)
    then have "py_eq v v" using PDict.IH by (force simp: snds.simps)
    with v show ?thesis by simp
  qed
  then show ?case by (simp add: list_all_iff)
qed simp_all

lemma py_eq_PStr: "py_eq v (PStr s) = (v = PStr s)"
  by (cases v) auto

lemma dict_get_dict_set:
  "dict_get (dict_set d k v) k' = (if k' = k then Some v else dict_get d k')"
  by (induction d) (auto simp: dict_get_def)

lemma dict_set_absent: "dict_get d k = None \<Longrightarrow> dict_set d k v = d @ [(k, v)]"
  by (induction d) (auto simp: dict_get_def split: if_splits)

lemma dict_get_keys: "dict_get d k = Some v \<Longrightarrow> k \<in> set (map fst d)"
  by (metis dict_get_def map_of_eq_None_iff option.distinct(1) set_map)

lemma known_deviceI:
  "dict_get devices did = Some device \<Longrightarrow> dict_get device k = Some v \<Longrightarrow>
   known_device (dict_get devices did) = Some device"
  by (auto simp: known_device_def dict_get_def)

section \<open>Cloud updates\<close>

text \<open>
  C1, as the code has it. For every device record D of the registry whose
  stored \<^verbatim>\<open>online\<close> is \<^verbatim>\<open>False\<close>, a cloud update for D whose params do
  not contain \<^verbatim>\<open>online\<close> stores \<^verbatim>\<open>online = True\<close> in D and publishes the
  per-device signal exactly once, with the params as payload.
\<close>

theorem cloud_update_offline_flips:
  assumes "msg_deviceid msg = Inr did"
    and "dict_get devices did = Some device"
    and "dict_get device ''online'' = Some (PBool False)"
    and "dict_get msg ''params'' = Some params"
    and "py_in ''online'' params = Inr False"
  shows "cloud_update devices msg =
           (dict_set devices did (dict_set device ''online'' (PBool True)),
            [Dispatch did [Val params]], None)
         \<and> dict_get (dict_set devices did (dict_set device ''online'' (PBool True))) did
             = Some (dict_set device ''online'' (PBool True))
         \<and> dict_get (dict_set device ''online'' (PBool True)) ''online'' = Some (PBool True)"
  using assms known_deviceI[OF assms(2,3)]
  by (simp add: cloud_update_def dict_get_dict_set)

theorem cloud_update_offline_flips_witness:
  "msg_deviceid (cloud_msg switch_on) = Inr ''A1''
   \<and> dict_get [(''A1'', a1_offline)] ''A1'' = Some a1_offline
   \<and> dict_get a1_offline ''online'' = Some (PBool False)
   \<and> dict_get (cloud_msg switch_on) ''params'' = Some switch_on
   \<and> py_in ''online'' switch_on = Inr False
   \<and> (cloud_update [(''A1'', a1_offline)] (cloud_msg switch_on) :: unit result)
       = ([(''A1'', a1_online)], [Dispatch ''A1'' [Val switch_on]], None)"
proof -
  have h1: "msg_deviceid (cloud_msg switch_on) = Inr ''A1''"
    by (simp add: msg_deviceid_def cloud_msg_def dict_get_def)
  have h2: "dict_get [(''A1'', a1_offline)] ''A1'' = Some a1_offline"
    by (simp add: dict_get_def)
  have h3: "dict_get a1_offline ''online'' = Some (PBool False)"
    by (simp add: a1_offline_def dict_get_def)
  have h4: "dict_get (cloud_msg switch_on) ''params'' = Some switch_on"
    by (simp add: cloud_msg_def dict_get_def)
  have h5: "py_in ''online'' switch_on = Inr False"
    by (simp add: switch_on_def)
  have "dict_set [(''A1'', a1_offline)] ''A1'' (dict_set a1_offline ''online'' (PBool True))
          = [(''A1'', a1_online)]"
    by (simp add: a1_offline_def a1_online_def)
  with cloud_update_offline_flips [OF h1 h2 h3 h4 h5, where ?'a = unit] h1 h2 h3 h4 h5
  show ?thesis by simp
qed

text \<open>
  The claim C1 as it is written fails for a record whose \<^verbatim>\<open>online\<close> is unset.
  When the key is absent, \<^verbatim>\<open>device["online"]\<close> raises \<^verbatim>\<open>KeyError\<close>:
  nothing is stored and nothing is published. When the key holds
  \<^verbatim>\<open>None\<close>, the test \<^verbatim>\<open>is False\<close> fails: the signal is published and
  \<^verbatim>\<open>online\<close> stays \<^verbatim>\<open>None\<close>.
\<close>

theorem cloud_update_unset_counterexample:
  "(cloud_update [(''A1'', a1_unset)] (cloud_msg switch_on) :: unit result)
     = ([(''A1'', a1_unset)], [], Some KeyError)
   \<and> (cloud_update [(''A1'', a1_none)] (cloud_msg switch_on) :: unit result)
     = ([(''A1'', a1_none)], [Dispatch ''A1'' [Val switch_on]], None)"
  by (simp add: cloud_update_def msg_deviceid_def cloud_msg_def known_device_def dict_get_def
      a1_unset_def a1_none_def switch_on_def)

text \<open>
  C4. For every device record D whose stored \<^verbatim>\<open>online\<close> is X, a cloud
  update for D whose params contain \<^verbatim>\<open>online\<close> with the same value X
  publishes nothing and leaves the registry, and so D, as it was.
\<close>

theorem cloud_update_same_online_noop:
  assumes "msg_deviceid msg = Inr did"
    and "dict_get devices did = Some device"
    and "dict_get device ''online'' = Some x"
    and "dict_get msg ''params'' = Some (PDict params)"
    and "dict_get params ''online'' = Some x"
  shows "cloud_update devices msg = (devices, [], None)"
  using assms known_deviceI[OF assms(2,3)] dict_get_keys[OF assms(5)]
  by (simp add: cloud_update_def py_eq_refl)

theorem cloud_update_same_online_noop_witness:
  "msg_deviceid (cloud_msg (PDict [(''online'', PBool True)])) = Inr ''A1''
   \<and> dict_get [(''A1'', a1_online)] ''A1'' = Some a1_online
   \<and> dict_get a1_online ''online'' = Some (PBool True)
   \<and> dict_get (cloud_msg (PDict [(''online'', PBool True)])) ''params''
       = Some (PDict [(''online'', PBool True)])
   \<and> dict_get [(''online'', PBool True)] ''online'' = Some (PBool True)
   \<and> (cloud_update [(''A1'', a1_online)] (cloud_msg (PDict [(''online'', PBool True)])) :: unit result)
       = ([(''A1'', a1_online)], [], None)"
proof -
  have h1: "msg_deviceid (cloud_msg (PDict [(''online'', PBool True)])) = Inr ''A1''"
    by (simp add: msg_deviceid_def cloud_msg_def dict_get_def)
  have h2: "dict_get [(''A1'', a1_online)] ''A1'' = Some a1_online"
    by (simp add: dict_get_def)
  have h3: "dict_get a1_online ''online'' = Some (PBool True)"
    by (simp add: a1_online_def dict_get_def)
  have h4: "dict_get (cloud_msg (PDict [(''online'', PBool True)])) ''params''
              = Some (PDict [(''online'', PBool True)])"
    by (simp add: cloud_msg_def dict_get_def)
  have h5: "dict_get [(''online'', PBool True)] ''online'' = Some (PBool True)"
    by (simp add: dict_get_def)
  from cloud_update_same_online_noop [OF h1 h2 h3 h4 h5, where ?'a = unit] h1 h2 h3 h4 h5
  show ?thesis by simp
qed

section \<open>Local updates\<close>

lemma present_dict: "dict_get params k = Some v \<Longrightarrow> present (Some (PDict params)) = Some (PDict params)"
  by (auto simp: present_def dict_get_def)

lemma known_device_nonempty:
  "dict_get devices did = Some device \<Longrightarrow> device \<noteq> [] \<Longrightarrow>
   known_device (dict_get devices did) = Some device"
  by (simp add: known_device_def)

lemma local_common_online:
  assumes "dict_get params ''online'' = Some v"
  shows "local_common devices key device msg did (PDict params) =
           (devices,
            if v = PNone then [CheckOffline device]
            else if v = PBool False then [Dispatch did []] else [],
            None)"
  using assms dict_get_keys[OF assms]
  by (simp add: local_common_def)

lemma local_update_known_online:
  assumes "msg_deviceid msg = Inr did"
    and "dict_get devices did = Some device"
    and "device \<noteq> []"
    and "dict_get msg ''params'' = Some (PDict params)"
    and "dict_get params ''online'' = Some v"
  shows "local_update decrypt_msg setup_diy get_spec entity_init pads_strings config devices msg =
           (devices,
            if v = PNone then [CheckOffline device]
            else if v = PBool False then [Dispatch did []] else [],
            None)"
  using assms(1,4) known_device_nonempty[OF assms(2,3)] present_dict[OF assms(5)]
  by (simp add: local_update_def local_common_online[OF assms(5)])

text \<open>
  C2, as the code has it. For every local update message carrying an unknown
  device id and no params, when decryption with the key from the persisted
  configuration fails, the raw message is stored in the registry as a
  placeholder under that id, so the device count grows by one, and no signal
  is published.
\<close>

theorem local_update_undecryptable_placeholder:
  assumes "msg_deviceid msg = Inr did"
    and "dict_get devices did = None"
    and "dict_get msg ''params'' = None"
    and "config_decrypt decrypt_msg config msg did = Inl e"
  shows "local_update decrypt_msg setup_diy get_spec entity_init pads_strings config devices msg =
           (devices @ [(did, msg)], [], None)
         \<and> length (devices @ [(did, msg)]) = Suc (length devices)"
  using assms
  by (simp add: local_update_def known_device_def present_def dict_set_absent)

theorem local_update_undecryptable_placeholder_witness:
  "msg_deviceid encrypted_msg = Inr ''A1''
   \<and> dict_get ([] :: registry) ''A1'' = None
   \<and> dict_get encrypted_msg ''params'' = None
   \<and> config_decrypt decrypt_fail key_config encrypted_msg ''A1'' = Inl ValueError
   \<and> local_update decrypt_fail diy_setup switch_spec plain_init True key_config [] encrypted_msg =
       ([(''A1'', encrypted_msg)], [], None)"
proof -
  have h1: "msg_deviceid encrypted_msg = Inr ''A1''"
    by (simp add: msg_deviceid_def encrypted_msg_def dict_get_def)
  have h2: "dict_get ([] :: registry) ''A1'' = None"
    by (simp add: dict_get_def)
  have h3: "dict_get encrypted_msg ''params'' = None"
    by (simp add: encrypted_msg_def dict_get_def)
  have h4: "config_decrypt decrypt_fail key_config encrypted_msg ''A1'' = Inl ValueError"
    by (simp add: config_decrypt_def config_devicekey_def config_override_def key_config_def
        decrypt_fail_def dict_get_def)
  from local_update_undecryptable_placeholder [OF h1 h2 h3 h4, of diy_setup switch_spec plain_init True]
    h1 h2 h3 h4
  show ?thesis by simp
qed

text \<open>
  The claim C2 as it is written fails: on an empty registry, the undecryptable
  broadcast of an unknown device leaves one entry behind, the raw message.
\<close>

theorem local_update_count_counterexample:
  "length (fst (local_update decrypt_fail diy_setup switch_spec plain_init True key_config [] encrypted_msg))
     \<noteq> length ([] :: registry)"
  by (simp add: local_update_def msg_deviceid_def encrypted_msg_def known_device_def present_def
      config_decrypt_def config_devicekey_def config_override_def key_config_def
      decrypt_fail_def dict_get_def)

text \<open>
  C5. For every local update message for a known device whose params contain
  \<^verbatim>\<open>online\<close>: a value \<^verbatim>\<open>None\<close> schedules the offline-confirmation probe
  and a value \<^verbatim>\<open>False\<close> publishes the per-device signal with no payload; in
  both cases the registry is left as it was (no host is recorded) and no
  update with the params is published.
\<close>

theorem local_update_online_signalling:
  assumes "msg_deviceid msg = Inr did"
    and "dict_get devices did = Some device"
    and "device \<noteq> []"
    and "dict_get msg ''params'' = Some (PDict params)"
    and "dict_get params ''online'' = Some v"
  shows "(v = PNone \<longrightarrow>
            local_update decrypt_msg setup_diy get_spec entity_init pads_strings config devices msg =
              (devices, [CheckOffline device], None))
         \<and> (v = PBool False \<longrightarrow>
            local_update decrypt_msg setup_diy get_spec entity_init pads_strings config devices msg =
              (devices, [Dispatch did []], None))"
  by (simp add: local_update_known_online[OF assms])

theorem local_update_online_signalling_witness:
  "msg_deviceid (local_msg (PDict [(''online'', PNone)])) = Inr ''A1''
   \<and> msg_deviceid (local_msg (PDict [(''online'', PBool False)])) = Inr ''A1''
   \<and> dict_get [(''A1'', a1_online)] ''A1'' = Some a1_online
   \<and> a1_online \<noteq> []
   \<and> local_update decrypt_fail diy_setup switch_spec plain_init True key_config [(''A1'', a1_online)]
        (local_msg (PDict [(''online'', PNone)])) =
       ([(''A1'', a1_online)], [CheckOffline a1_online], None)
   \<and> local_update decrypt_fail diy_setup switch_spec plain_init True key_config [(''A1'', a1_online)]
        (local_msg (PDict [(''online'', PBool False)])) =
       ([(''A1'', a1_online)], [Dispatch ''A1'' []], None)"
proof -
  have h1: "msg_deviceid (local_msg p) = Inr ''A1''" for p
    by (simp add: msg_deviceid_def local_msg_def dict_get_def)
  have h2: "dict_get [(''A1'', a1_online)] ''A1'' = Some a1_online"
    by (simp add: dict_get_def)
  have h3: "a1_online \<noteq> []"
    by (simp add: a1_online_def)
  have h4: "dict_get (local_msg (PDict p)) ''params'' = Some (PDict p)" for p
    by (simp add: local_msg_def dict_get_def)
  have h5: "dict_get [(''online'', x)] ''online'' = Some x" for x :: pyval
    by (simp add: dict_get_def)
  from local_update_online_signalling [OF h1 h2 h3 h4 h5, of PNone decrypt_fail diy_setup
      switch_spec plain_init True key_config]
    local_update_online_signalling [OF h1 h2 h3 h4 h5, of "PBool False" decrypt_fail diy_setup
      switch_spec plain_init True key_config]
    h1 h2 h3
  show ?thesis by simp
qed

text \<open>
  C10. For every local update message for a known device whose params contain
  \<^verbatim>\<open>online\<close> with a value that is neither \<^verbatim>\<open>None\<close> nor \<^verbatim>\<open>False\<close>,
  \<^verbatim>\<open>True\<close> in particular, \<^verbatim>\<open>local_update\<close> returns with the registry as
  it was (no field of the device is changed, no host is recorded), with no
  probe scheduled and with no signal published.
\<close>

theorem local_update_online_true_silent:
  assumes "msg_deviceid msg = Inr did"
    and "dict_get devices did = Some device"
    and "device \<noteq> []"
    and "dict_get msg ''params'' = Some (PDict params)"
    and "dict_get params ''online'' = Some v"
    and "v \<noteq> PNone"
    and "v \<noteq> PBool False"
  shows "local_update decrypt_msg setup_diy get_spec entity_init pads_strings config devices msg = (devices, [], None)"
  using assms(6,7) by (simp add: local_update_known_online[OF assms(1-5)])

theorem local_update_online_true_silent_witness:
  "msg_deviceid (local_msg (PDict [(''online'', PBool True)])) = Inr ''A1''
   \<and> dict_get [(''A1'', a1_offline)] ''A1'' = Some a1_offline
   \<and> a1_offline \<noteq> []
   \<and> PBool True \<noteq> PNone \<and> PBool True \<noteq> PBool False
   \<and> local_update decrypt_fail diy_setup switch_spec plain_init True key_config [(''A1'', a1_offline)]
        (local_msg (PDict [(''online'', PBool True)])) =
       ([(''A1'', a1_offline)], [], None)"
proof -
  have h1: "msg_deviceid (local_msg (PDict [(''online'', PBool True)])) = Inr ''A1''"
    by (simp add: msg_deviceid_def local_msg_def dict_get_def)
  have h2: "dict_get [(''A1'', a1_offline)] ''A1'' = Some a1_offline"
    by (simp add: dict_get_def)
  have h3: "a1_offline \<noteq> []"
    by (simp add: a1_offline_def)
  have h4: "dict_get (local_msg (PDict [(''online'', PBool True)])) ''params''
              = Some (PDict [(''online'', PBool True)])"
    by (simp add: local_msg_def dict_get_def)
  have h5: "dict_get [(''online'', PBool True)] ''online'' = Some (PBool True)"
    by (simp add: dict_get_def)
  have h6: "PBool True \<noteq> PNone" by simp
  have h7: "PBool True \<noteq> PBool False" by simp
  from local_update_online_true_silent [OF h1 h2 h3 h4 h5 h6 h7, of decrypt_fail diy_setup
      switch_spec plain_init True key_config]
    h1 h2 h3
  show ?thesis by simp
qed

section \<open>Command dispatch\<close>

text \<open>
  C3. For every call of \<^verbatim>\<open>send\<close> with both transports available whose
  local send does not report \<^verbatim>\<open>'online'\<close>: the local attempt is followed by
  exactly one cloud send with the full params, and the zero-payload status query
  \<^verbatim>\<open>cloud.send(device, timeout=0)\<close> is issued if and only if
  \<^verbatim>\<open>query_cloud\<close> is true and that cloud send reported \<^verbatim>\<open>'online'\<close>.
\<close>

theorem send_falls_back_to_cloud:
  assumes "can_use local_online device ''host''"
    and "can_use cloud_online device ''online''"
    and "local_send device (py_or params_lan params) seq 1 \<noteq> PStr ''online''"
  shows "(send local_online cloud_online local_send cloud_send seq device params params_lan
           query_cloud :: 'c event list) =
           LocalSend device (py_or params_lan params) seq 1 #
           CloudSend device (Some params) (Some seq) None #
           (if cloud_send device (Some params) (Some seq) None \<noteq> PStr ''online''
            then [CheckOffline device]
            else if query_cloud then [CloudSend device None None (Some 0)] else [])
         \<and> length (filter (\<lambda>ev. ev = CloudSend device (Some params) (Some seq) None)
              (send local_online cloud_online local_send cloud_send seq device params params_lan
                 query_cloud :: 'c event list)) = 1
         \<and> (CloudSend device None None (Some 0) \<in>
              set (send local_online cloud_online local_send cloud_send seq device params
                     params_lan query_cloud :: 'c event list)
            \<longleftrightarrow> query_cloud \<and> cloud_send device (Some params) (Some seq) None = PStr ''online'')"
  using assms by (simp add: send_def py_eq_PStr)

theorem send_falls_back_to_cloud_witness:
  "can_use True a1_reachable ''host''
   \<and> can_use True a1_reachable ''online''
   \<and> local_timeout a1_reachable (py_or PNone switch_on) ''1700000000000'' 1 \<noteq> PStr ''online''
   \<and> (send True True local_timeout cloud_ok ''1700000000000'' a1_reachable switch_on PNone True
        :: unit event list) =
       [LocalSend a1_reachable switch_on ''1700000000000'' 1,
        CloudSend a1_reachable (Some switch_on) (Some ''1700000000000'') None,
        CloudSend a1_reachable None None (Some 0)]"
proof -
  have h1: "can_use True a1_reachable ''host''"
    by (simp add: can_use_def a1_reachable_def dict_get_def)
  have h2: "can_use True a1_reachable ''online''"
    by (simp add: can_use_def a1_reachable_def dict_get_def)
  have h3: "local_timeout a1_reachable (py_or PNone switch_on) ''1700000000000'' 1
              \<noteq> PStr ''online''"
    by (simp add: local_timeout_def)
  have h4: "py_or PNone switch_on = switch_on"
    by (simp add: py_or_def)
  note fallback = send_falls_back_to_cloud [where ?'c = unit and local_online = True
      and cloud_online = True and device = a1_reachable and local_send = local_timeout
      and cloud_send = cloud_ok and params_lan = PNone and params = switch_on
      and seq = "''1700000000000''" and query_cloud = True]
  from fallback [OF h1 h2 h3] h1 h2 h3 h4
  show ?thesis by (simp add: cloud_ok_def)
qed

text \<open>
  C8. For every call of \<^verbatim>\<open>send\<close> where neither transport is available
  (the local transport is down or the record has no host, and the cloud is down
  or the record is not online, which is what \<open>can_use\<close> computes), no
  transport call is made: the call returns with an empty trace. The method has no
  raising operation on this path.
\<close>

theorem send_without_transport:
  assumes "\<not> can_use local_online device ''host''"
    and "\<not> can_use cloud_online device ''online''"
  shows "send local_online cloud_online local_send cloud_send seq device params params_lan
           query_cloud = []"
  using assms by (simp add: send_def)

theorem send_without_transport_witness:
  "\<not> can_use True a1_offline ''host''
   \<and> \<not> can_use True a1_offline ''online''
   \<and> (send True True local_timeout cloud_ok ''1700000000000'' a1_offline switch_on PNone True
        :: unit event list) = []"
proof -
  have h1: "\<not> can_use True a1_offline ''host''"
    by (simp add: can_use_def a1_offline_def dict_get_def)
  have h2: "\<not> can_use True a1_offline ''online''"
    by (simp add: can_use_def a1_offline_def dict_get_def)
  from send_without_transport [OF h1 h2, of local_timeout cloud_ok "''1700000000000''" switch_on
      PNone True, where ?'a = unit] h1 h2
  show ?thesis by simp
qed

section \<open>Registration from a local broadcast\<close>

lemma dict_set_keys:
  "map fst (dict_set d k v) = (if k \<in> set (map fst d) then map fst d else map fst d @ [k])"
  by (induction d) (auto simp: rev_image_eqI)

lemma dict_get_None_keys: "dict_get d k = None \<longleftrightarrow> k \<notin> set (map fst d)"
  by (simp add: dict_get_def map_of_eq_None_iff)

lemma setup_device_registers:
  assumes "msg_deviceid device0 = Inr did"
    and "apply_override config did device0 = device"
    and "dict_get device ''extra'' = Some extra"
    and "py_getitem extra ''uiid'' = Inr uiid"
    and "format_04 pads_strings uiid = None"
    and "dict_get device ''params'' = Some p"
    and "init_entities entity_init (get_spec device) device = (built, None)"
  shows "setup_device get_spec entity_init pads_strings config devices device0 =
           (dict_set devices did device,
            built @ [Dispatch ''add_entities''
                       [Entities (map (\<lambda>cls. (cls, device)) (get_spec device))]],
            None)"
  using assms by (simp add: setup_device_def)

lemma local_common_keys:
  assumes "key \<in> set (map fst devices)"
  shows "map fst (fst (local_common devices key device msg did params)) = map fst devices"
  using assms
  by (auto simp: local_common_def dict_set_keys split: sum.splits bool.splits)

lemma local_common_tail:
  "length (fst (snd (local_common devices key device msg did params))) \<le> 1
   \<and> list_all (\<lambda>ev. ev = CheckOffline device \<or> is_dispatch did ev)
        (fst (snd (local_common devices key device msg did params)))"
  by (auto simp: local_common_def split: sum.splits bool.splits)

text \<open>
  C6, as the code has it. For every local update message carrying an unknown
  device id whose payload decrypts with the key found in the persisted
  configuration, when the record of \<^verbatim>\<open>setup_diy\<close> is one that
  \<^verbatim>\<open>setup_devices\<close> accepts (it keeps the device id and the params and its
  \<^verbatim>\<open>extra.uiid\<close> passes the format of the debug line) and the entity
  constructors return: the call adds exactly one entry to the registry, under
  that device id, and \<^verbatim>\<open>setup_devices\<close> publishes \<^verbatim>\<open>"add_entities"\<close>
  exactly once with the entities of the device. That publication comes after
  whatever the entity constructors published themselves, and at most one event
  follows it, the offline probe or a publication on the signal of the device.
\<close>

theorem local_update_registers_unknown:
  fixes get_spec :: "dict \<Rightarrow> 'c list"
  assumes "msg_deviceid msg = Inr did"
    and "dict_get devices did = None"
    and "present (dict_get msg ''params'') = None"
    and "config_decrypt decrypt_msg config msg did = Inr params"
    and "msg_deviceid (setup_diy (dict_set msg ''params'' params)) = Inr did"
    and "apply_override config did (setup_diy (dict_set msg ''params'' params)) = device"
    and "dict_get device ''extra'' = Some extra"
    and "py_getitem extra ''uiid'' = Inr uiid"
    and "format_04 pads_strings uiid = None"
    and "dict_get device ''params'' = Some p"
    and "init_entities entity_init (get_spec device) device = (built, None)"
  shows "map fst (fst (local_update decrypt_msg setup_diy get_spec entity_init pads_strings config devices msg))
           = map fst devices @ [did]
         \<and> length (fst (local_update decrypt_msg setup_diy get_spec entity_init pads_strings config devices msg))
           = Suc (length devices)
         \<and> fst (snd (local_update decrypt_msg setup_diy get_spec entity_init pads_strings config devices msg))
           = built
             @ Dispatch ''add_entities'' [Entities (map (\<lambda>cls. (cls, device)) (get_spec device))]
             # fst (snd (local_common (dict_set devices did device) did device
                          (dict_set msg ''params'' params) did params :: 'c result))
         \<and> length (fst (snd (local_common (dict_set devices did device) did device
                          (dict_set msg ''params'' params) did params :: 'c result))) \<le> 1
         \<and> list_all (\<lambda>ev. ev = CheckOffline device \<or> is_dispatch did ev)
              (fst (snd (local_common (dict_set devices did device) did device
                          (dict_set msg ''params'' params) did params :: 'c result)))"
proof -
  let ?msg = "dict_set msg ''params'' params"
  let ?devices = "dict_set devices did device"
  let ?common = "local_common ?devices did device ?msg did params :: 'c result"
  let ?published = "Dispatch ''add_entities''
                      [Entities (map (\<lambda>cls. (cls, device)) (get_spec device))] :: 'c event"
  have absent: "did \<notin> set (map fst devices)"
    using assms(2) by (simp add: dict_get_None_keys)
  have unknown: "known_device (dict_get devices did) = None"
    using assms(2) by (simp add: known_device_def)
  have registered:
    "setup_devices get_spec entity_init pads_strings config devices [setup_diy ?msg] =
       (?devices, built @ [?published], None)"
    by (simp add: setup_device_registers[where get_spec = get_spec and entity_init = entity_init
          and built = built and device = device, OF assms(5-11)])
  have result:
    "local_update decrypt_msg setup_diy get_spec entity_init pads_strings config devices msg =
       (fst ?common, built @ ?published # fst (snd ?common), snd (snd ?common))"
    using assms(1,3,4,5) unknown
    by (simp add: local_update_def registered assms(6) case_prod_beta del: setup_devices.simps)
  have keys: "map fst (fst ?common) = map fst devices @ [did]"
    using absent by (simp add: local_common_keys dict_set_keys)
  have len: "length (fst ?common) = Suc (length devices)"
    using arg_cong[OF keys, of length] by simp
  from keys len local_common_tail[of ?devices did device ?msg did params, where ?'a = 'c]
  show ?thesis
    by (simp add: result)
qed

theorem local_update_registers_unknown_witness:
  "msg_deviceid encrypted_msg = Inr ''A1''
   \<and> dict_get ([] :: registry) ''A1'' = None
   \<and> present (dict_get encrypted_msg ''params'') = None
   \<and> config_decrypt decrypt_ok key_config encrypted_msg ''A1'' = Inr switch_on
   \<and> init_entities plain_init [''XSwitch''] (encrypted_msg @
        [(''params'', switch_on), (''extra'', PDict [(''uiid'', PInt 1)]),
         (''devicekey'', PStr ''k1'')]) = ([], None)
   \<and> map fst (fst (local_update decrypt_ok diy_setup switch_spec plain_init True key_config []
                      encrypted_msg)) = [''A1'']
   \<and> fst (snd (local_update decrypt_ok diy_setup switch_spec plain_init True key_config []
                  encrypted_msg))
       = [Dispatch ''add_entities''
            [Entities [(''XSwitch'', encrypted_msg @
               [(''params'', switch_on), (''extra'', PDict [(''uiid'', PInt 1)]),
                (''devicekey'', PStr ''k1'')])]],
          Dispatch ''A1'' [Val switch_on]]"
proof -
  let ?device = "encrypted_msg @
        [(''params'', switch_on), (''extra'', PDict [(''uiid'', PInt 1)]),
         (''devicekey'', PStr ''k1'')]"
  have h1: "msg_deviceid encrypted_msg = Inr ''A1''"
    by (simp add: msg_deviceid_def encrypted_msg_def dict_get_def)
  have h2: "dict_get ([] :: registry) ''A1'' = None"
    by (simp add: dict_get_def)
  have h3: "present (dict_get encrypted_msg ''params'') = None"
    by (simp add: present_def encrypted_msg_def dict_get_def)
  have h4: "config_decrypt decrypt_ok key_config encrypted_msg ''A1'' = Inr switch_on"
    by (simp add: config_decrypt_def config_devicekey_def config_override_def key_config_def
        decrypt_ok_def dict_get_def)
  have h5: "msg_deviceid (diy_setup (dict_set encrypted_msg ''params'' switch_on)) = Inr ''A1''"
    by (simp add: msg_deviceid_def diy_setup_def encrypted_msg_def dict_get_def)
  have h6: "apply_override key_config ''A1''
              (diy_setup (dict_set encrypted_msg ''params'' switch_on)) = ?device"
    by (simp add: apply_override_def config_override_def key_config_def diy_setup_def
        encrypted_msg_def dict_get_def)
  have h7: "dict_get ?device ''extra'' = Some (PDict [(''uiid'', PInt 1)])"
    by (simp add: encrypted_msg_def dict_get_def)
  have h8: "py_getitem (PDict [(''uiid'', PInt 1)]) ''uiid'' = Inr (PInt 1)"
    by (simp add: dict_get_def)
  have h9: "format_04 True (PInt 1) = None"
    by simp
  have h10: "dict_get ?device ''params'' = Some switch_on"
    by (simp add: encrypted_msg_def dict_get_def)
  have h11: "init_entities plain_init (switch_spec ?device) ?device = ([], None)"
    by (simp add: switch_spec_def plain_init_def)
  have h11': "init_entities plain_init [''XSwitch''] ?device = ([], None)"
    using h11 by (simp add: switch_spec_def)
  have common:
    "fst (snd (local_common (dict_set [] ''A1'' ?device) ''A1'' ?device
        (dict_set encrypted_msg ''params'' switch_on) ''A1'' switch_on :: string result))
     = [Dispatch ''A1'' [Val switch_on]]"
    by (simp add: local_common_def switch_on_def)
  note registers = local_update_registers_unknown [where msg = encrypted_msg and did = "''A1''"
      and devices = "[]" and decrypt_msg = decrypt_ok and config = key_config
      and params = switch_on and setup_diy = diy_setup and device = ?device
      and extra = "PDict [(''uiid'', PInt 1)]" and uiid = "PInt 1" and p = switch_on
      and get_spec = switch_spec and entity_init = plain_init and pads_strings = True
      and built = "[]"]
  note result = registers [OF h1 h2 h3 h4 h5 h6 h7 h8 h9 h10 h11]
  from result have keys:
    "map fst (fst (local_update decrypt_ok diy_setup switch_spec plain_init True key_config []
                     encrypted_msg)) = [''A1'']"
    by simp
  from result have
    "fst (snd (local_update decrypt_ok diy_setup switch_spec plain_init True key_config []
                 encrypted_msg))
     = [] @ Dispatch ''add_entities'' [Entities (map (\<lambda>cls. (cls, ?device)) (switch_spec ?device))]
          # fst (snd (local_common (dict_set [] ''A1'' ?device) ''A1'' ?device
                        (dict_set encrypted_msg ''params'' switch_on) ''A1'' switch_on
                      :: string result))"
    by blast
  then have events:
    "fst (snd (local_update decrypt_ok diy_setup switch_spec plain_init True key_config []
                 encrypted_msg))
     = [Dispatch ''add_entities'' [Entities [(''XSwitch'', ?device)]],
        Dispatch ''A1'' [Val switch_on]]"
    by (simp only: common) (simp add: switch_spec_def)
  from h1 h2 h3 h4 h11' keys events show ?thesis
    by blast
qed

text \<open>
  The claim C6 as it is written fails for an RF bridge. \<^verbatim>\<open>XRemote.__init__\<close>
  publishes \<^verbatim>\<open>"add_entities"\<close> for its children at line 97 of
  \<^verbatim>\<open>remote.py\<close>, here for none, and \<^verbatim>\<open>setup_devices\<close> publishes it
  again for the bridge at line 48: two publications for one broadcast.
\<close>

theorem local_update_bridge_counterexample:
  "local_update decrypt_bridge diy_bridge bridge_spec bridge_init True bridge_config []
     encrypted_msg
     = ([(''A1'', bridge_device)],
        [Dispatch ''add_entities'' [Childs []],
         Dispatch ''add_entities'' [Entities [(''XRemote'', bridge_device)]],
         Dispatch ''A1'' [Val bridge_params]],
        None)
   \<and> length (filter (is_dispatch ''add_entities'')
        (fst (snd (local_update decrypt_bridge diy_bridge bridge_spec bridge_init True
                     bridge_config [] encrypted_msg)))) = 2"
proof -
  have device: "apply_override bridge_config ''A1''
                  (diy_bridge (dict_set encrypted_msg ''params'' bridge_params)) = bridge_device"
    by (simp add: apply_override_def config_override_def bridge_config_def diy_bridge_def
        encrypted_msg_def bridge_device_def dict_get_def)
  have id: "msg_deviceid (diy_bridge (dict_set encrypted_msg ''params'' bridge_params)) = Inr ''A1''"
    by (simp add: msg_deviceid_def diy_bridge_def encrypted_msg_def dict_get_def)
  have built: "bridge_init ''XRemote'' bridge_device = ([Dispatch ''add_entities'' [Childs []]], None)"
    by (simp add: bridge_init_def xremote_init_def xremote_childs_def learned_channels_def
        rfbridge_childs_def no_base_events_def bridge_device_def bridge_params_def
        bridge_config_def dict_get_def)
  have fields: "dict_get bridge_device ''extra'' = Some (PDict [(''uiid'', PInt 28)])"
    "dict_get bridge_device ''params'' = Some bridge_params"
    by (simp_all add: bridge_device_def dict_get_def)
  have uiid: "py_getitem (PDict [(''uiid'', PInt 28)]) ''uiid'' = Inr (PInt 28)"
    by (simp add: dict_get_def)
  have registered:
    "setup_device bridge_spec bridge_init True bridge_config []
       (diy_bridge (dict_set encrypted_msg ''params'' bridge_params))
     = ([(''A1'', bridge_device)],
        [Dispatch ''add_entities'' [Childs []],
         Dispatch ''add_entities'' [Entities [(''XRemote'', bridge_device)]]],
        None)"
    by (simp add: setup_device_def id device fields dict_get_def[of "[(''uiid'', PInt 28)]"]
        bridge_spec_def built)
  have common:
    "(local_common [(''A1'', bridge_device)] ''A1'' bridge_device
        (dict_set encrypted_msg ''params'' bridge_params) ''A1'' bridge_params :: string result)
     = ([(''A1'', bridge_device)], [Dispatch ''A1'' [Val bridge_params]], None)"
    by (simp add: local_common_def bridge_params_def msg_host_def encrypted_msg_def
        bridge_device_def dict_get_def)
  have idm: "msg_deviceid encrypted_msg = Inr ''A1''"
    by (simp add: msg_deviceid_def encrypted_msg_def dict_get_def)
  have unknown: "known_device (dict_get ([] :: registry) ''A1'') = None"
    by (simp add: known_device_def dict_get_def)
  have no_params: "present (dict_get encrypted_msg ''params'') = None"
    by (simp add: present_def encrypted_msg_def dict_get_def)
  have decrypted: "config_decrypt decrypt_bridge bridge_config encrypted_msg ''A1'' = Inr bridge_params"
    by (simp add: config_decrypt_def config_devicekey_def config_override_def bridge_config_def
        decrypt_bridge_def dict_get_def)
  have "local_update decrypt_bridge diy_bridge bridge_spec bridge_init True bridge_config []
          encrypted_msg
        = ([(''A1'', bridge_device)],
           [Dispatch ''add_entities'' [Childs []],
            Dispatch ''add_entities'' [Entities [(''XRemote'', bridge_device)]],
            Dispatch ''A1'' [Val bridge_params]],
           None)"
    by (simp add: local_update_def idm unknown no_params decrypted registered id device common)
  then show ?thesis
    by simp
qed

section \<open>Cloud connection hook\<close>

lemma owned_init: "owned init"
  by (simp add: owned_def init_def)

lemma owned_cloud_connected:
  assumes "owned s"
  shows "owned (snd (cloud_connected devices s))"
proof (cases "needs_task s")
  case False
  with assms show ?thesis by (simp add: cloud_connected_def)
next
  case True
  have "finished s ! i" if "i < length (finished s)" for i
  proof (rule ccontr)
    assume "\<not> finished s ! i"
    with assms that have "task s = Some i" by (simp add: owned_def)
    with True that have "finished s ! i" by (simp add: needs_task_def task_done_def)
    with \<open>\<not> finished s ! i\<close> show False by simp
  qed
  with True show ?thesis
    by (auto simp: cloud_connected_def owned_def nth_append less_Suc_eq)
qed

lemma owned_finish:
  assumes "owned s"
  shows "owned (s\<lparr>finished := (finished s)[i := True]\<rparr>)"
proof (cases "i < length (finished s)")
  case True
  with assms show ?thesis
    by (auto simp: owned_def nth_list_update)
next
  case False
  with assms show ?thesis
    by (simp add: owned_def)
qed

lemma owned_run: "owned s \<Longrightarrow> owned (run steps s)"
proof (induction steps arbitrary: s)
  case Nil
  then show ?case by simp
next
  case (Cons step steps)
  then show ?case
    by (cases step) (simp_all add: owned_cloud_connected owned_finish)
qed

lemma owned_alive:
  assumes "owned s"
  shows "alive s \<le> 1"
proof -
  let ?A = "{i. i < length (finished s) \<and> \<not> finished s ! i}"
  have "?A \<subseteq> (case task s of None \<Rightarrow> {} | Some j \<Rightarrow> {j})"
    using assms by (auto simp: owned_def split: option.splits)
  moreover have "card (case task s of None \<Rightarrow> {} | Some j \<Rightarrow> {j}) \<le> 1"
    by (simp split: option.splits)
  moreover have "finite (case task s of None \<Rightarrow> {} | Some j \<Rightarrow> {j})"
    by (simp split: option.splits)
  ultimately have "card ?A \<le> 1"
    by (meson card_mono le_trans)
  then show ?thesis
    by (simp add: alive_def length_filter_conv_card)
qed

text \<open>
  C9. Every call of \<^verbatim>\<open>cloud_connected\<close> publishes the per-device signal
  without payload once for every device id of the registry, in registry order,
  and creates the activation task exactly when \<^verbatim>\<open>self.task\<close> is unset or
  done. Whatever sequence of connections and task completions follows
  \<^verbatim>\<open>__init__\<close>, at most one activation task is alive.
\<close>

theorem cloud_connected_single_task:
  "filter (\<lambda>ev. ev \<noteq> CreateTask) (fst (cloud_connected devices s :: 'c event list \<times> scheduler))
     = map (\<lambda>deviceid. Dispatch deviceid []) (map fst devices)
   \<and> (CreateTask \<in> set (fst (cloud_connected devices s :: 'c event list \<times> scheduler))
        \<longleftrightarrow> task s = None \<or> (\<exists>i. task s = Some i \<and> task_done s i))
   \<and> alive (run steps init) \<le> 1"
proof -
  have "filter (\<lambda>ev. ev \<noteq> CreateTask) (map (\<lambda>deviceid. Dispatch deviceid []) ks)
          = (map (\<lambda>deviceid. Dispatch deviceid []) ks :: 'c event list)" for ks
    by (induction ks) simp_all
  then have published:
    "filter (\<lambda>ev. ev \<noteq> CreateTask) (fst (cloud_connected devices s :: 'c event list \<times> scheduler))
       = map (\<lambda>deviceid. Dispatch deviceid []) (map fst devices)"
    by (simp add: cloud_connected_def)
  have started:
    "CreateTask \<in> set (fst (cloud_connected devices s :: 'c event list \<times> scheduler))
       \<longleftrightarrow> task s = None \<or> (\<exists>i. task s = Some i \<and> task_done s i)"
    by (auto simp: cloud_connected_def needs_task_def split: option.splits)
  have "alive (run steps init) \<le> 1"
    by (rule owned_alive[OF owned_run[OF owned_init]])
  with published started show ?thesis by simp
qed

theorem cloud_connected_single_task_witness:
  "fst (cloud_connected [(''A1'', a1_online), (''B2'', a1_offline)] init :: unit event list \<times> scheduler)
     = [Dispatch ''A1'' [], Dispatch ''B2'' [], CreateTask]
   \<and> fst (cloud_connected [(''A1'', a1_online)]
            (run [Connected [(''A1'', a1_online)]] init) :: unit event list \<times> scheduler)
     = [Dispatch ''A1'' []]
   \<and> alive (run [Connected [], Connected [], Finish 0, Connected [], Connected []] init) = 1"
proof -
  note single = cloud_connected_single_task [where ?'c = unit and devices = "[(''A1'', a1_online)]"
      and s = init and steps = "[Connected [], Connected [], Finish 0, Connected [], Connected []]"]
  have "alive (run [Connected [], Connected [], Finish 0, Connected [], Connected []] init) \<noteq> 0"
    by (simp add: alive_def init_def cloud_connected_def needs_task_def task_done_def)
  with single have "alive (run [Connected [], Connected [], Finish 0, Connected [], Connected []] init) = 1"
    by linarith
  then show ?thesis
    by (simp add: cloud_connected_def needs_task_def task_done_def init_def)
qed

section \<open>Periodic activation loop\<close>

lemma table_in_activation:
  "table_in t uiid = Inr b \<Longrightarrow>
   b = (case pow_key uiid of Inr (Some k) \<Rightarrow> dict_get t k \<noteq> None | _ \<Rightarrow> False)"
  by (auto simp: table_in_def dict_get_None_keys split: sum.splits option.splits)

lemma pow_eligible_activation:
  assumes "pow_eligible t device = Inr b"
  shows "b = (activation t device \<noteq> None)"
proof (cases "dict_get device ''extra''")
  case None
  with assms show ?thesis by (simp add: pow_eligible_def activation_def)
next
  case (Some extra)
  with assms obtain uiid where u: "py_getitem extra ''uiid'' = Inr uiid"
    and b: "table_in t uiid = Inr b"
    by (auto simp: pow_eligible_def split: sum.splits)
  from u obtain ex where ex: "extra = PDict ex" and g: "dict_get ex ''uiid'' = Some uiid"
    by (cases extra) (auto split: option.splits)
  from table_in_activation[OF b] Some ex g show ?thesis
    by (auto simp: activation_def split: sum.splits option.splits)
qed

text \<open>The records collected at the start are the eligible ones, in registry order.\<close>

lemma pow_devices_filter:
  "pow_devices t ds = Inr es \<Longrightarrow> es = filter (\<lambda>d. activation t d \<noteq> None) ds"
proof (induction ds arbitrary: es)
  case Nil
  then show ?case by simp
next
  case (Cons d ds)
  then show ?case
    by (auto split: sum.splits dest: pow_eligible_activation)
qed

text \<open>With no eligible record the task returns at once, whatever the turns would be.\<close>

lemma pow_helper_returns:
  "pow_devices t (map snd devices) = Inr [] \<Longrightarrow> pow_helper t devices turns = ([], [], Returned)"
  by (simp add: pow_helper_def)

text \<open>
  What the loop does with one collected record that has an \<^verbatim>\<open>online\<close>
  field: it sends the activation command, with timeout zero and after storing
  \<open>ts + dt\<close> as the next eligible time, exactly when the record is online
  and due; otherwise it leaves the record alone and sends nothing.
\<close>

lemma pow_visit_spec:
  assumes "timed device" and "activation t device \<noteq> None"
  shows "pow_visit t ts device =
           (if activation_due ts device then activate t ts device else device,
            if activation_due ts device then pulse t ts device else [],
            None)"
proof -
  from assms(2) obtain dt params where act: "activation t device = Some (dt, params)"
    by fastforce
  then obtain ex uiid k where ex: "dict_get device ''extra'' = Some (PDict ex)"
    and u: "dict_get ex ''uiid'' = Some uiid"
    and k: "pow_key uiid = Inr (Some k)"
    and e: "dict_get t k = Some (dt, params)"
    by (auto simp: activation_def split: option.splits pyval.splits sum.splits)
  from k e have tg: "table_get t uiid = Inr (dt, params)"
    by (simp add: table_get_def)
  from assms(1) obtain on where on: "dict_get device ''online'' = Some on"
    by (auto simp: timed_def)
  show ?thesis
  proof (cases "dict_get device ''pow_ts''")
    case None
    with on ex u tg act show ?thesis
      by (auto simp: pow_visit_def py_gt_def activation_due_def activate_def pulse_def Let_def)
  next
    case (Some p)
    with assms(1) obtain x where x: "py_num p = Some x"
      by (auto simp: timed_def)
    with Some on ex u tg act show ?thesis
      by (auto simp: pow_visit_def py_gt_def activation_due_def activate_def pulse_def Let_def)
  qed
qed

text \<open>
  The records are read afresh on every sweep: a power meter that is online
  and due gets its command at time 1000; the cloud reports it offline during
  the sleep, and the sweep at time 5000, past the new deadline, sends nothing.
\<close>

lemma pow_helper_reads_online:
  "(pow_helper pow_table_1 [(''P1'', meter_on)]
      [Turn True 1000 quiet_send goes_offline, Turn True 5000 quiet_send quiet_sleep]
     :: dict list \<times> unit event list \<times> status)
   = ([[(''deviceid'', PStr ''P1''), (''extra'', PDict [(''uiid'', PInt 32)]),
        (''online'', PBool False), (''pow_ts'', PFloat 4600)]],
      [CloudSend (meter_on @ [(''pow_ts'', PFloat 4600)])
         (Some (PDict [(''uiActive'', PInt 7200)])) None (Some 0),
       Sleep 150,
       Sleep 150],
      Looping)"
  by (simp add: pow_helper_def pow_eligible_def table_in_def pow_visit_def py_gt_def
      table_get_def disturb_def quiet_send_def quiet_sleep_def goes_offline_def
      meter_on_def pow_table_1_def dict_get_def Let_def)

text \<open>
  C7 holds for one record as \<open>pow_visit_spec\<close> says, but the loop as a whole
  misses it. The registry holds two power meters: \<^verbatim>\<open>P0\<close> has no
  \<^verbatim>\<open>online\<close> field and \<^verbatim>\<open>P1\<close> is online with no deadline yet, so
  \<^verbatim>\<open>P1\<close> is eligible, online and due at time 1000. The first sweep raises
  \<^verbatim>\<open>KeyError\<close> at \<^verbatim>\<open>device["online"]\<close> for \<^verbatim>\<open>P0\<close>: the task ends,
  the second turn never runs, and \<^verbatim>\<open>P1\<close> is sent nothing.
\<close>

theorem pow_helper_missing_online:
  "activation pow_table_1 meter_on = Some (3600, PDict [(''uiActive'', PInt 7200)])
   \<and> activation_due 1000 meter_on
   \<and> (pow_helper pow_table_1 [(''P0'', meter_unset), (''P1'', meter_on)]
        [Turn True 1000 quiet_send quiet_sleep, Turn True 1150 quiet_send quiet_sleep]
       :: dict list \<times> unit event list \<times> status)
     = ([meter_unset, meter_on], [], Raised KeyError)"
  by (simp add: pow_helper_def pow_eligible_def table_in_def pow_visit_def activation_def
      activation_due_def meter_unset_def meter_on_def pow_table_1_def dict_get_def)

end
